theory Spec2Isabelle
  imports Complex_Main "HOL-Library.AList"
begin

section \<open>MCPExecutor: result data\<close>

text \<open>
  The structured result document read from \<open>results.json\<close>: suites hold optional
  \<open>specs\<close> and optional nested \<open>suites\<close>; a spec holds optional \<open>tests\<close>; a test has an
  \<open>outcome\<close> field that may be missing. An absent (undefined) field is \<open>None\<close>.
\<close>

datatype test = Test (outcome: "string option")

datatype spec = Spec (tests: "test list option")

datatype suite = Suite (specs: "spec list option") (suites: "suite list option")

text \<open>
  A JSON value as \<open>fs.readJson\<close> returns it (an object lists each key once; only whether a
  number is zero matters here).
\<close>

datatype json = JNull | JBool bool | JNum int | JStr string | JArr "json list" | JObj "(string \<times> json) list"

text \<open>
  The document kept in \<open>result.detailedResults\<close>: \<open>Detailed\<close> holds what the traversal of
  \<open>generateExecutionSummary\<close> reads of a document it can walk; \<open>Unwalkable\<close> holds a parsed
  document on which that traversal throws.
\<close>

datatype detailed = Detailed (d_suites: "suite list option") | Unwalkable json

datatype status = Passed | Failed

text \<open>
  Error values. \<open>DependencyInstallFailed code\<close> is
  \<open>new Error(`Dependency installation failed with exit code ${code}`)\<close>; \<open>SystemError\<close> is
  an error raised by the platform (file system, child process), named by its message.
  Where the source keeps \<open>error.message\<close>, the model keeps the error value.
\<close>

datatype js_error =
    ReferenceError string
  | TypeError string
  | DependencyInstallFailed "int option"
  | SystemError string

text \<open>The test definition handed in by the caller: \<open>testData.id\<close> and \<open>testData.code\<close>.\<close>

record test_data =
  td_id :: string
  td_code :: string

record artifact =
  filename :: string
  path :: string
  url :: string
  size :: nat

record report =
  rp_path :: string
  rp_url :: string

record artifacts =
  screenshots :: "artifact list"
  videos :: "artifact list"
  traces :: "artifact list"
  reports :: "report list"

record artifact_counts =
  n_screenshots :: nat
  n_videos :: nat
  n_traces :: nat
  n_reports :: nat

record performance =
  executionTime :: int
  avgTestTime :: real

record summary =
  s_status :: status
  s_duration :: int
  s_exitCode :: "int option"
  testCount :: nat
  passedCount :: nat
  failedCount :: nat
  skippedCount :: nat
  artifactCounts :: artifact_counts
  performance :: "performance option"

text \<open>
  The result object built by the \<open>close\<close> handler of \<open>runTest\<close> and extended in place by
  \<open>processResults\<close>. Times are milliseconds since the epoch (the source keeps their ISO
  strings); \<open>exitCode\<close> is \<open>None\<close> for JavaScript's \<open>null\<close>.
\<close>

record execution_result =
  exitCode :: "int option"
  r_output :: string
  errorOutput :: string
  duration :: int
  startTime :: int
  endTime :: int
  status :: status
  sessionId :: string
  testData :: test_data
  detailedResults :: "detailed option"
  artifacts :: "artifacts option"
  r_summary :: "summary option"
  processingError :: "js_error option"

text \<open>
  The object literal the \<open>close\<close> handler of \<open>runTest\<close> builds from the exit code, the
  collected output and the two clock readings: \<open>duration = endTime - startTime\<close> and
  \<open>status: code === 0 ? 'passed' : 'failed'\<close>. The fields \<open>processResults\<close> adds later
  are still absent.
\<close>

definition closeResult ::
  "int option \<Rightarrow> string \<Rightarrow> string \<Rightarrow> int \<Rightarrow> int \<Rightarrow> string \<Rightarrow> test_data \<Rightarrow> execution_result" where
  "closeResult code out err start fin sid td =
     \<lparr>exitCode = code, r_output = out, errorOutput = err, duration = fin - start,
      startTime = start, endTime = fin,
      status = (if code = Some 0 then Passed else Failed),
      sessionId = sid, testData = td, detailedResults = None, artifacts = None,
      r_summary = None, processingError = None\<rparr>"

section \<open>The traversal on an arbitrary parsed document\<close>

text \<open>
  What the loops of \<open>generateExecutionSummary\<close> and \<open>countTestResults\<close> do on any JSON
  value. A value is truthy unless it is \<open>null\<close>, \<open>false\<close>, 0 or the empty string. Reading
  one of the properties \<open>suites\<close>, \<open>specs\<close>, \<open>tests\<close>, \<open>outcome\<close> of \<open>null\<close> throws a
  \<open>TypeError\<close>; an object yields the member if it has one; any other value yields
  \<open>undefined\<close>. \<open>for ... of\<close> iterates an array by its elements and a string by its
  characters (each a one-character string, which has none of the four properties), and
  throws a \<open>TypeError\<close> on any other value.
\<close>

fun truthy :: "json \<Rightarrow> bool" where
  "truthy JNull = False"
| "truthy (JBool b) = b"
| "truthy (JNum n) = (n \<noteq> 0)"
| "truthy (JStr s) = (s \<noteq> [])"
| "truthy (JArr xs) = True"
| "truthy (JObj fs) = True"

definition nullProperty :: "string \<Rightarrow> js_error" where
  "nullProperty k = TypeError (''Cannot read properties of null (reading '' @ k @ '')'')"

definition notIterable :: "string \<Rightarrow> js_error" where
  "notIterable k = TypeError (k @ '' is not iterable'')"

text \<open>A loop body applied to each element in turn; the first exception ends the loop.\<close>

fun eachOf :: "('a \<Rightarrow> js_error + 'b) \<Rightarrow> 'a list \<Rightarrow> js_error + 'b list" where
  "eachOf f [] = Inr []"
| "eachOf f (x # xs) =
     (case f x of
        Inl e \<Rightarrow> Inl e
      | Inr y \<Rightarrow> (case eachOf f xs of Inl e \<Rightarrow> Inl e | Inr ys \<Rightarrow> Inr (y # ys)))"

text \<open>
  One element of \<open>spec.tests\<close>: the loop body reads \<open>test.outcome\<close> and compares it with
  three strings, so an outcome that is not a string counts like a missing one.
\<close>

fun readTest :: "json \<Rightarrow> js_error + test" where
  "readTest JNull = Inl (nullProperty ''outcome'')"
| "readTest (JObj fs) = Inr (Test (case map_of fs ''outcome'' of Some (JStr oc) \<Rightarrow> Some oc | _ \<Rightarrow> None))"
| "readTest v = Inr (Test None)"

fun readTests :: "json \<Rightarrow> js_error + test list" where
  "readTests (JArr xs) = eachOf readTest xs"
| "readTests (JStr s) = Inr (map (\<lambda>c. Test None) s)"
| "readTests v = Inl (notIterable ''spec.tests'')"

text \<open>One element of \<open>suite.specs\<close>: \<open>if (spec.tests)\<close>, then the loop over them.\<close>

fun readSpec :: "json \<Rightarrow> js_error + spec" where
  "readSpec JNull = Inl (nullProperty ''tests'')"
| "readSpec (JObj fs) =
     (case map_of fs ''tests'' of
        None \<Rightarrow> Inr (Spec None)
      | Some v \<Rightarrow>
          if truthy v
          then (case readTests v of Inl e \<Rightarrow> Inl e | Inr ts \<Rightarrow> Inr (Spec (Some ts)))
          else Inr (Spec None))"
| "readSpec v = Inr (Spec None)"

fun readSpecs :: "json \<Rightarrow> js_error + spec list" where
  "readSpecs (JArr xs) = eachOf readSpec xs"
| "readSpecs (JStr s) = Inr (map (\<lambda>c. Spec None) s)"
| "readSpecs v = Inl (notIterable ''suite.specs'')"

text \<open>
  One element of \<open>suites\<close>: \<open>if (suite.specs)\<close> with its loops first, then
  \<open>if (suite.suites)\<close> with the recursive call; and the loop \<open>for (const suite of suites)\<close>.
\<close>

lemma member_smaller: "map_of fs k = Some v \<Longrightarrow> size_json v < size_json (JObj fs)"
  by (induction fs) (auto split: if_splits)

function readSuite :: "json \<Rightarrow> js_error + suite"
  and readSuites :: "json \<Rightarrow> js_error + suite list"
  and readSuiteList :: "json list \<Rightarrow> js_error + suite list" where
  "readSuite JNull = Inl (nullProperty ''specs'')"
| "readSuite (JObj fs) =
     (case (case map_of fs ''specs'' of
              None \<Rightarrow> Inr None
            | Some v \<Rightarrow>
                if truthy v
                then (case readSpecs v of Inl e \<Rightarrow> Inl e | Inr sps \<Rightarrow> Inr (Some sps))
                else Inr None) of
        Inl e \<Rightarrow> Inl e
      | Inr sp \<Rightarrow>
          (case map_of fs ''suites'' of
             None \<Rightarrow> Inr (Suite sp None)
           | Some v \<Rightarrow>
               if truthy v
               then (case readSuites v of Inl e \<Rightarrow> Inl e | Inr subs \<Rightarrow> Inr (Suite sp (Some subs)))
               else Inr (Suite sp None)))"
| "readSuite (JBool b) = Inr (Suite None None)"
| "readSuite (JNum n) = Inr (Suite None None)"
| "readSuite (JStr s) = Inr (Suite None None)"
| "readSuite (JArr xs) = Inr (Suite None None)"
| "readSuites (JArr xs) = readSuiteList xs"
| "readSuites (JStr s) = Inr (map (\<lambda>c. Suite None None) s)"
| "readSuites JNull = Inl (notIterable ''suites'')"
| "readSuites (JBool b) = Inl (notIterable ''suites'')"
| "readSuites (JNum n) = Inl (notIterable ''suites'')"
| "readSuites (JObj fs) = Inl (notIterable ''suites'')"
| "readSuiteList [] = Inr []"
| "readSuiteList (x # xs) =
     (case readSuite x of
        Inl e \<Rightarrow> Inl e
      | Inr su \<Rightarrow> (case readSuiteList xs of Inl e \<Rightarrow> Inl e | Inr sus \<Rightarrow> Inr (su # sus)))"
  by pat_completeness auto
termination
  by (relation "measure (\<lambda>x. case x of Inl v \<Rightarrow> size_json v
                                  | Inr (Inl v) \<Rightarrow> size_json v
                                  | Inr (Inr xs) \<Rightarrow> size_list size_json xs)")
     (auto dest: member_smaller)

text \<open>
  \<open>if (result.detailedResults && result.detailedResults.suites)\<close> and the traversal it
  guards: the suites read, or the exception thrown.
\<close>

fun readDocument :: "json \<Rightarrow> js_error + suite list option" where
  "readDocument (JObj fs) =
     (case map_of fs ''suites'' of
        None \<Rightarrow> Inr None
      | Some v \<Rightarrow>
          if truthy v
          then (case readSuites v of Inl e \<Rightarrow> Inl e | Inr sus \<Rightarrow> Inr (Some sus))
          else Inr None)"
| "readDocument v = Inr None"

text \<open>
  The document as the result keeps it; \<open>result.detailedResults.suites\<close> where the traversal
  does not throw; and whether summarising the result throws.
\<close>

definition documentOf :: "json \<Rightarrow> detailed" where
  "documentOf j = (case readDocument j of Inr sv \<Rightarrow> Detailed sv | Inl e \<Rightarrow> Unwalkable j)"

fun suitesOf :: "detailed \<Rightarrow> suite list option" where
  "suitesOf (Detailed sv) = sv"
| "suitesOf (Unwalkable j) = (case readDocument j of Inr sv \<Rightarrow> sv | Inl e \<Rightarrow> None)"

definition summaryThrows :: "execution_result \<Rightarrow> js_error option" where
  "summaryThrows r =
     (case detailedResults r of
        Some (Unwalkable j) \<Rightarrow> (case readDocument j of Inl e \<Rightarrow> Some e | Inr sv \<Rightarrow> None)
      | _ \<Rightarrow> None)"

section \<open>MCPExecutor.countTestResults and generateExecutionSummary\<close>

text \<open>The body of the innermost loop of \<open>countTestResults\<close>, for one test.\<close>

definition countTest :: "test \<Rightarrow> summary \<Rightarrow> summary" where
  "countTest t s =
     (let s1 = s\<lparr>testCount := testCount s + 1\<rparr>
      in if outcome t = Some ''expected'' then s1\<lparr>passedCount := passedCount s1 + 1\<rparr>
         else if outcome t = Some ''unexpected'' then s1\<lparr>failedCount := failedCount s1 + 1\<rparr>
         else if outcome t = Some ''skipped'' then s1\<lparr>skippedCount := skippedCount s1 + 1\<rparr>
         else s1)"

text \<open>The loop over \<open>suite.specs\<close>: a spec without \<open>tests\<close> contributes nothing.\<close>

definition countSpec :: "spec \<Rightarrow> summary \<Rightarrow> summary" where
  "countSpec sp s = (case tests sp of None \<Rightarrow> s | Some ts \<Rightarrow> fold countTest ts s)"

text \<open>
  \<open>countTestResults(suites, summary)\<close>: for each suite, its specs first, then the
  recursive call on its nested suites, threading the mutated summary.
\<close>

fun countTestResults :: "suite list \<Rightarrow> summary \<Rightarrow> summary" where
  "countTestResults [] s = s"
| "countTestResults (Suite sp su # rest) s =
     (let s1 = (case sp of None \<Rightarrow> s | Some sps \<Rightarrow> fold countSpec sps s);
          s2 = (case su of None \<Rightarrow> s1 | Some subs \<Rightarrow> countTestResults subs s1)
      in countTestResults rest s2)"

text \<open>\<open>result.artifacts?.screenshots?.length || 0\<close> and its three siblings.\<close>

definition countArtifacts :: "artifacts option \<Rightarrow> artifact_counts" where
  "countArtifacts a =
     (case a of
        None \<Rightarrow> \<lparr>n_screenshots = 0, n_videos = 0, n_traces = 0, n_reports = 0\<rparr>
      | Some x \<Rightarrow> \<lparr>n_screenshots = length (screenshots x), n_videos = length (videos x),
                   n_traces = length (traces x), n_reports = length (reports x)\<rparr>)"

text \<open>
  \<open>generateExecutionSummary(result)\<close>. The quotient \<open>duration / testCount\<close> is the exact
  one; the JavaScript number is its nearest double. On a document whose traversal throws
  the method throws too (\<open>summaryThrows\<close>); this is the summary of every other result.
\<close>

definition generateExecutionSummary :: "execution_result \<Rightarrow> summary" where
  "generateExecutionSummary result =
     (let summary0 = \<lparr>s_status = status result, s_duration = duration result,
                       s_exitCode = exitCode result, testCount = 0, passedCount = 0,
                       failedCount = 0, skippedCount = 0,
                       artifactCounts = countArtifacts (artifacts result),
                       performance = None\<rparr>;
          summary1 = (case detailedResults result of
                        None \<Rightarrow> summary0
                      | Some d \<Rightarrow> (case suitesOf d of
                                    None \<Rightarrow> summary0
                                  | Some ss \<Rightarrow> countTestResults ss summary0))
      in summary1\<lparr>performance := Some \<lparr>executionTime = duration result,
                  avgTestTime = (if testCount summary1 > 0
                                 then real_of_int (duration result) / real (testCount summary1)
                                 else 0)\<rparr>\<rparr>)"

text \<open>
  The tally as the specification words it: every leaf test of the tree, at any depth,
  listed in visiting order.
\<close>

definition specTests :: "spec \<Rightarrow> test list" where
  "specTests x = (case tests x of None \<Rightarrow> [] | Some ts \<Rightarrow> ts)"

fun leafTests :: "suite list \<Rightarrow> test list" where
  "leafTests [] = []"
| "leafTests (Suite sp su # rest) =
     (case sp of None \<Rightarrow> [] | Some sps \<Rightarrow> concat (map specTests sps))
     @ (case su of None \<Rightarrow> [] | Some subs \<Rightarrow> leafTests subs)
     @ leafTests rest"

definition countOutcome :: "string \<Rightarrow> test list \<Rightarrow> nat" where
  "countOutcome oc ts = length (filter (\<lambda>t. outcome t = Some oc) ts)"

text \<open>Leaf tests whose outcome is neither \<open>expected\<close> nor \<open>unexpected\<close>.\<close>

definition otherOutcome :: "test \<Rightarrow> bool" where
  "otherOutcome t = (outcome t \<noteq> Some ''expected'' \<and> outcome t \<noteq> Some ''unexpected'')"

definition countOther :: "test list \<Rightarrow> nat" where
  "countOther ts = length (filter otherOutcome ts)"

text \<open>The effect of the tally on the four counters, for a list of tests.\<close>

definition tally :: "test list \<Rightarrow> summary \<Rightarrow> summary" where
  "tally ts s = s\<lparr>testCount := testCount s + length ts,
     passedCount := passedCount s + countOutcome ''expected'' ts,
     failedCount := failedCount s + countOutcome ''unexpected'' ts,
     skippedCount := skippedCount s + countOutcome ''skipped'' ts\<rparr>"

section \<open>Events, child processes and scopes\<close>

text \<open>
  The messages the executor passes to \<open>streamingService.broadcast\<close>, by their \<open>type\<close>
  field, with the payload fields that are not clock readings or generated ids.
\<close>

datatype event =
    ExecutionQueued string nat
  | ExecutionStarted string string
  | DependencyInstallationStarted string
  | DependencyOutput string string
  | DependencyError string string
  | DependencyInstallationCompleted string
  | TestOutput string string
  | TestError string string
  | TestCompleted string status int "int option"
  | TestExecutionError string js_error

text \<open>The one message of the executor that reports an error: \<open>test-execution-error\<close>.\<close>

fun isErrorEvent :: "event \<Rightarrow> bool" where
  "isErrorEvent (TestExecutionError sid e) = True"
| "isErrorEvent ev = False"

text \<open>
  What a spawned child process does is given by the environment, as the list of events
  its \<open>ChildProcess\<close> object emits, oldest first: \<open>data\<close> on stdout or stderr, \<open>close\<close>
  with an exit code (\<open>None\<close> for \<open>null\<close>), \<open>error\<close>.
\<close>

datatype proc_event =
    StdoutData string
  | StderrData string
  | CloseEv "int option"
  | ErrorEv js_error

text \<open>
  A promise settles once: \<open>resolve\<close> and \<open>reject\<close> on a settled promise do nothing.
  \<open>None\<close> is a pending promise.
\<close>

definition settle :: "'a \<Rightarrow> 'a option \<Rightarrow> 'a option" where
  "settle v p = (case p of None \<Rightarrow> Some v | Some u \<Rightarrow> Some u)"

text \<open>
  JavaScript values as far as the \<open>spawn\<close> call of \<open>runTest\<close> touches them, and lexical
  scopes: a binding declared by \<open>const\<close> or \<open>let\<close> exists from the entry of its block and
  is uninitialised until its declaration has been evaluated. Reading an uninitialised
  binding throws a \<open>ReferenceError\<close>; a name bound nowhere in the chain throws one too.
\<close>

datatype jsval = Undefined | Str string | Arr "jsval list" | Obj "(string \<times> jsval) list" | Fn string

datatype binding = Uninitialized | Initialized jsval

type_synonym scope = "(string \<times> binding) list"

fun resolve :: "scope list \<Rightarrow> string \<Rightarrow> js_error + jsval" where
  "resolve [] x = Inl (ReferenceError (x @ '' is not defined''))"
| "resolve (sc # outer) x =
     (case map_of sc x of
        None \<Rightarrow> resolve outer x
      | Some Uninitialized \<Rightarrow> Inl (ReferenceError (''Cannot access '' @ x @ '' before initialization''))
      | Some (Initialized v) \<Rightarrow> Inr v)"

definition initialize :: "string \<Rightarrow> jsval \<Rightarrow> scope \<Rightarrow> scope" where
  "initialize x v sc = AList.update x (Initialized v) sc"

text \<open>Property read \<open>v.k\<close> and the own properties an object spread \<open>{...v}\<close> copies.\<close>

fun getMember :: "jsval \<Rightarrow> string \<Rightarrow> js_error + jsval" where
  "getMember Undefined k = Inl (TypeError (''Cannot read properties of undefined (reading '' @ k @ '')''))"
| "getMember (Obj fs) k = Inr (case map_of fs k of None \<Rightarrow> Undefined | Some v \<Rightarrow> v)"
| "getMember v k = Inr Undefined"

fun spread :: "jsval \<Rightarrow> (string \<times> jsval) list" where
  "spread (Obj fs) = fs"
| "spread v = []"

section \<open>MCPExecutor.installDependencies\<close>

text \<open>
  The state the handlers of one promise share: the messages broadcast so far and how
  the promise has settled.
\<close>

record 'a handlers =
  sent :: "event list"
  promise :: "(js_error + 'a) option"

text \<open>
  The four handlers of \<open>installDependencies\<close>: output chunks are broadcast; \<open>close\<close> with
  code 0 broadcasts the completion and resolves, with any other code rejects; \<open>error\<close>
  rejects.
\<close>

fun installHandler :: "string \<Rightarrow> proc_event \<Rightarrow> unit handlers \<Rightarrow> unit handlers" where
  "installHandler sid (StdoutData d) h = h\<lparr>sent := sent h @ [DependencyOutput sid d]\<rparr>"
| "installHandler sid (StderrData d) h = h\<lparr>sent := sent h @ [DependencyError sid d]\<rparr>"
| "installHandler sid (CloseEv code) h =
     (if code = Some 0
      then h\<lparr>sent := sent h @ [DependencyInstallationCompleted sid],
             promise := settle (Inr ()) (promise h)\<rparr>
      else h\<lparr>promise := settle (Inl (DependencyInstallFailed code)) (promise h)\<rparr>)"
| "installHandler sid (ErrorEv e) h = h\<lparr>promise := settle (Inl e) (promise h)\<rparr>"

definition installDependencies :: "string \<Rightarrow> proc_event list \<Rightarrow> unit handlers" where
  "installDependencies sid npm =
     fold (installHandler sid) npm \<lparr>sent = [DependencyInstallationStarted sid], promise = None\<rparr>"

section \<open>MCPExecutor.runTest\<close>

text \<open>
  The scopes around the \<open>spawn\<close> call of \<open>runTest\<close>, innermost first. The body of the
  arrow function passed to \<open>then\<close> declares \<open>args\<close>, \<open>process\<close>, \<open>output\<close>, \<open>errorOutput\<close>
  and \<open>startTime\<close>; around it are the promise executor's parameters, the parameters of
  \<open>runTest\<close>, the module's top-level bindings, and the global scope \<open>gl\<close> of the host (where
  Node binds \<open>process\<close>).
\<close>

definition thenBodyScope :: scope where
  "thenBodyScope =
     [(''args'', Uninitialized), (''process'', Uninitialized), (''output'', Uninitialized),
      (''errorOutput'', Uninitialized), (''startTime'', Uninitialized)]"

definition executorScope :: scope where
  "executorScope = [(''resolve'', Initialized (Fn ''resolve'')), (''reject'', Initialized (Fn ''reject''))]"

definition runTestScope :: "test_data \<Rightarrow> string \<Rightarrow> string \<Rightarrow> scope" where
  "runTestScope td sid executionDir =
     [(''testData'', Initialized (Obj [(''id'', Str (td_id td)), (''code'', Str (td_code td))])),
      (''sessionId'', Initialized (Str sid)),
      (''executionDir'', Initialized (Str executionDir)),
      (''streamingService'', Initialized (Obj []))]"

definition moduleScope :: scope where
  "moduleScope =
     [(''spawn'', Initialized (Fn ''spawn'')), (''fs'', Initialized (Obj [])),
      (''path'', Initialized (Obj [])), (''uuidv4'', Initialized (Fn ''v4'')),
      (''MCPExecutor'', Initialized (Fn ''MCPExecutor''))]"

definition outerScopes :: "scope \<Rightarrow> test_data \<Rightarrow> string \<Rightarrow> string \<Rightarrow> scope list" where
  "outerScopes gl td sid executionDir = [executorScope, runTestScope td sid executionDir, moduleScope, gl]"

text \<open>
  The right-hand side of \<open>const process = spawn('npx', args, { cwd: executionDir,
  stdio: 'pipe', env: { ...process.env, CI: 'true' } })\<close>, evaluated in the scope chain
  \<open>sc\<close> in JavaScript's order: the callee, then the arguments from left to right, the
  object literal's properties in the order written. The call is made only when every
  argument has a value; the result names the callee and its three arguments.
\<close>

definition spawnCall :: "scope list \<Rightarrow> js_error + (jsval \<times> jsval \<times> jsval \<times> jsval)" where
  "spawnCall sc =
     (case resolve sc ''spawn'' of Inl e \<Rightarrow> Inl e | Inr callee \<Rightarrow>
      case resolve sc ''args'' of Inl e \<Rightarrow> Inl e | Inr args \<Rightarrow>
      case resolve sc ''executionDir'' of Inl e \<Rightarrow> Inl e | Inr cwd \<Rightarrow>
      case resolve sc ''process'' of Inl e \<Rightarrow> Inl e | Inr proc \<Rightarrow>
      case getMember proc ''env'' of Inl e \<Rightarrow> Inl e | Inr env \<Rightarrow>
        Inr (callee, Str ''npx'', args,
             Obj [(''cwd'', cwd), (''stdio'', Str ''pipe''),
                  (''env'', Obj (spread env @ [(''CI'', Str ''true'')]))]))"

text \<open>
  The handlers registered on the test-runner process: closure variables \<open>output\<close> and
  \<open>errorOutput\<close>, the broadcasts and the promise of \<open>runTest\<close>. \<open>start\<close> is the clock
  reading \<open>startTime\<close> taken after the spawn, \<open>fin\<close> the reading \<open>endTime\<close> taken in the
  \<open>close\<close> handler.
\<close>

record supervision = "execution_result handlers" +
  outputAcc :: string
  errorOutputAcc :: string

fun runnerHandler ::
  "test_data \<Rightarrow> string \<Rightarrow> int \<Rightarrow> int \<Rightarrow> proc_event \<Rightarrow> supervision \<Rightarrow> supervision" where
  "runnerHandler td sid start fin (StdoutData d) h =
     h\<lparr>outputAcc := outputAcc h @ d, sent := sent h @ [TestOutput sid d]\<rparr>"
| "runnerHandler td sid start fin (StderrData d) h =
     h\<lparr>errorOutputAcc := errorOutputAcc h @ d, sent := sent h @ [TestError sid d]\<rparr>"
| "runnerHandler td sid start fin (CloseEv code) h =
     (let result = closeResult code (outputAcc h) (errorOutputAcc h) start fin sid td
      in h\<lparr>sent := sent h @ [TestCompleted sid (status result) (duration result) (exitCode result)],
            promise := settle (Inr result) (promise h)\<rparr>)"
| "runnerHandler td sid start fin (ErrorEv e) h =
     h\<lparr>sent := sent h @ [TestExecutionError sid e], promise := settle (Inl e) (promise h)\<rparr>"

text \<open>
  What one call of \<open>runTest\<close> does: the messages it broadcasts, the commands it spawns,
  and how its promise settles (\<open>None\<close>: never).
\<close>

record run_outcome =
  ro_sent :: "event list"
  ro_spawned :: "string list"
  ro_promise :: "(js_error + execution_result) option"

text \<open>
  \<open>runTest\<close>: \<open>installDependencies(...).then(callback).catch(reject)\<close>. A rejected or
  pending installation never runs the callback. The callback initialises \<open>args\<close> and
  evaluates the \<open>spawn\<close> call; an exception thrown there rejects through \<open>catch(reject)\<close>.
  Only after the call are the handlers registered, which see the events \<open>runner\<close> of the
  test-runner process.
\<close>

definition runTest ::
  "scope \<Rightarrow> proc_event list \<Rightarrow> proc_event list \<Rightarrow> int \<Rightarrow> int \<Rightarrow> test_data \<Rightarrow> string \<Rightarrow> string \<Rightarrow> run_outcome" where
  "runTest gl npm runner start fin td sid executionDir =
     (let inst = installDependencies sid npm
      in case promise inst of
           None \<Rightarrow> \<lparr>ro_sent = sent inst, ro_spawned = [''npm''], ro_promise = None\<rparr>
         | Some (Inl e) \<Rightarrow> \<lparr>ro_sent = sent inst, ro_spawned = [''npm''], ro_promise = Some (Inl e)\<rparr>
         | Some (Inr u) \<Rightarrow>
             (let body = initialize ''args''
                           (Arr [Str ''playwright'', Str ''test'', Str ''--config'', Str ''playwright.config.ts''])
                           thenBodyScope
              in case spawnCall (body # outerScopes gl td sid executionDir) of
                   Inl e \<Rightarrow> \<lparr>ro_sent = sent inst, ro_spawned = [''npm''], ro_promise = Some (Inl e)\<rparr>
                 | Inr call \<Rightarrow>
                     (let h = fold (runnerHandler td sid start fin) runner
                                \<lparr>sent = sent inst, promise = None, outputAcc = [], errorOutputAcc = []\<rparr>
                      in \<lparr>ro_sent = sent h, ro_spawned = [''npm'', ''npx''], ro_promise = promise h\<rparr>)))"

section \<open>Paths, the results directory and artifact collection\<close>

text \<open>\<open>config.storage\<close>: the five configured roots.\<close>

record storage =
  st_tests :: string
  st_results :: string
  st_screenshots :: string
  st_videos :: string
  st_traces :: string

text \<open>The storage roots of \<open>config.js\<close>.\<close>

definition configStorage :: storage where
  "configStorage = \<lparr>st_tests = ''./data/tests'', st_results = ''./data/results'',
     st_screenshots = ''./data/screenshots'', st_videos = ''./data/videos'',
     st_traces = ''./data/traces''\<rparr>"

text \<open>
  \<open>path.join\<close> of a directory and a name (without the normalisation of \<open>.\<close> and \<open>..\<close>
  segments), \<open>path.basename\<close>, \<open>String.prototype.endsWith\<close> and \<open>includes\<close> (\<open>includesStr\<close>).
\<close>

definition joinPath :: "string \<Rightarrow> string \<Rightarrow> string" where
  "joinPath dir name = dir @ ''/'' @ name"

definition basename :: "string \<Rightarrow> string" where
  "basename p = rev (takeWhile (\<lambda>c. c \<noteq> CHR ''/'') (rev p))"

definition endsWith :: "string \<Rightarrow> string \<Rightarrow> bool" where
  "endsWith name ext = (length ext \<le> length name \<and> drop (length name - length ext) name = ext)"

fun includesStr :: "string \<Rightarrow> string \<Rightarrow> bool" where
  "includesStr [] sub = (sub = [])"
| "includesStr (c # cs) sub = (take (length sub) (c # cs) = sub \<or> includesStr cs sub)"

text \<open>
  The rule that names an artifact in durable storage:
  \<open>`${sessionId}-${path.basename(file)}`\<close>.
\<close>

definition artifactFilename :: "string \<Rightarrow> string \<Rightarrow> string" where
  "artifactFilename sid file = sid @ ''-'' @ basename file"

text \<open>
  A directory as \<open>fs.readdir\<close> lists it: files and subdirectories by name; a directory
  whose listing is \<open>None\<close> cannot be read (\<open>readdir\<close> throws).
\<close>

datatype fsnode = File string | Dir string "fsnode list option"

fun nodeName :: "fsnode \<Rightarrow> string" where
  "nodeName (File name) = name"
| "nodeName (Dir name sub) = name"

text \<open>
  \<open>findFiles(dir, extensions)\<close>: a listing that throws is logged and yields no files;
  a subdirectory is searched recursively, a file is kept when its name ends with one of
  the extensions.
\<close>

fun findFiles :: "string \<Rightarrow> fsnode list option \<Rightarrow> string list \<Rightarrow> string list"
  and findItems :: "string \<Rightarrow> fsnode list \<Rightarrow> string list \<Rightarrow> string list" where
  "findFiles dir None exts = []"
| "findFiles dir (Some items) exts = findItems dir items exts"
| "findItems dir [] exts = []"
| "findItems dir (File name # rest) exts =
     (if list_ex (endsWith name) exts then [joinPath dir name] else []) @ findItems dir rest exts"
| "findItems dir (Dir name sub # rest) exts =
     findFiles (joinPath dir name) sub exts @ findItems dir rest exts"

text \<open>
  What copying a discovered file does is given by the environment: \<open>cp\<close> lists, by source
  path, the files whose \<open>fs.copy\<close> (or the \<open>fs.stat\<close> after it) throws, and the byte size
  of those that copy; a path not listed copies with size 0.
\<close>

definition copyOutcome :: "(string \<times> (js_error + nat)) list \<Rightarrow> string \<Rightarrow> js_error + nat" where
  "copyOutcome cp file = (case map_of cp file of None \<Rightarrow> Inr 0 | Some r \<Rightarrow> r)"

text \<open>
  One \<open>for (const file of files)\<close> loop of \<open>processArtifacts\<close>: each file is copied into
  the bucket under its storage name and recorded; the first copy that throws ends the
  loop (the flag is \<open>True\<close>) with the records made so far.
\<close>

fun copyEach ::
  "(string \<times> (js_error + nat)) list \<Rightarrow> string \<Rightarrow> string \<Rightarrow> string \<Rightarrow> string list \<Rightarrow> artifact list
     \<Rightarrow> artifact list \<times> bool" where
  "copyEach cp bucket urlRoot sid [] acc = (acc, False)"
| "copyEach cp bucket urlRoot sid (file # rest) acc =
     (let filename = artifactFilename sid file;
          targetPath = joinPath bucket filename
      in case copyOutcome cp file of
           Inl e \<Rightarrow> (acc, True)
         | Inr sz \<Rightarrow> copyEach cp bucket urlRoot sid rest
                      (acc @ [\<lparr>filename = filename, path = targetPath, url = urlRoot @ filename, size = sz\<rparr>]))"

text \<open>
  \<open>processArtifacts(resultsDir, sessionId)\<close>: screenshots, videos, traces (the \<open>.zip\<close>
  files whose base name includes \<open>trace\<close>), then the HTML report directory if it exists
  (if the listing of the results directory names it). The one \<open>try\<close> block spans all
  four stages: an exception in a stage is logged, skips the later stages, and the
  artifacts collected so far are returned. Clock readings are left out of the records.
\<close>

definition processArtifacts ::
  "storage \<Rightarrow> fsnode list option \<Rightarrow> (string \<times> (js_error + nat)) list \<Rightarrow> string \<Rightarrow> string \<Rightarrow> artifacts" where
  "processArtifacts cfg tree cp resultsDir sid =
     (let (shots, threw1) = copyEach cp (st_screenshots cfg) ''/screenshots/'' sid
                              (findFiles resultsDir tree [''.png'', ''.jpg'']) []
      in if threw1 then \<lparr>screenshots = shots, videos = [], traces = [], reports = []\<rparr>
      else
      let (vids, threw2) = copyEach cp (st_videos cfg) ''/videos/'' sid
                              (findFiles resultsDir tree [''.webm'', ''.mp4'']) []
      in if threw2 then \<lparr>screenshots = shots, videos = vids, traces = [], reports = []\<rparr>
      else
      let (trs, threw3) = copyEach cp (st_traces cfg) ''/traces/'' sid
                              (filter (\<lambda>file. includesStr (basename file) ''trace'')
                                 (findFiles resultsDir tree [''.zip''])) []
      in if threw3 then \<lparr>screenshots = shots, videos = vids, traces = trs, reports = []\<rparr>
      else
      let htmlReportDir = joinPath resultsDir ''html-report'';
          reportTargetDir = joinPath (st_results cfg) (sid @ ''-html-report'')
      in if (case tree of None \<Rightarrow> False | Some items \<Rightarrow> ''html-report'' \<in> set (map nodeName items))
         then (case copyOutcome cp htmlReportDir of
                 Inl e \<Rightarrow> \<lparr>screenshots = shots, videos = vids, traces = trs, reports = []\<rparr>
               | Inr sz \<Rightarrow> \<lparr>screenshots = shots, videos = vids, traces = trs,
                            reports = [\<lparr>rp_path = reportTargetDir,
                                        rp_url = ''/results/'' @ sid @ ''-html-report/index.html''\<rparr>]\<rparr>)
         else \<lparr>screenshots = shots, videos = vids, traces = trs, reports = []\<rparr>)"

section \<open>MCPExecutor.processResults\<close>

text \<open>
  The environment of one call of \<open>processResults\<close>: whether \<open>fs.ensureDir(resultsDir)\<close>
  throws; the file \<open>results.json\<close> (absent; unreadable or unparsable, so that
  \<open>fs.readJson\<close> throws; or parsed, to any JSON value); the
  listing of the results directory and the copy outcomes; whether the final
  \<open>fs.writeJson\<close> throws.
\<close>

datatype json_file = NoFile | BadJson js_error | Json json

record results_world =
  rw_ensureDir :: "js_error option"
  rw_json :: json_file
  rw_tree :: "fsnode list option"
  rw_copy :: "(string \<times> (js_error + nat)) list"
  rw_writeJson :: "js_error option"

text \<open>The path of the result file of a session: \<open>`${sessionId}-result.json`\<close> under the results root.\<close>

definition resultFileOf :: "storage \<Rightarrow> string \<Rightarrow> string" where
  "resultFileOf cfg sid = joinPath (st_results cfg) (sid @ ''-result.json'')"

text \<open>
  \<open>processResults(result, sessionId, executionDir)\<close>, with the result files of durable
  storage as an association list from path to the record written. Every statement of the
  \<open>try\<close> block that can throw leads to the \<open>catch\<close> block, which sets \<open>processingError\<close> on
  the result as mutated so far and returns it; the write of the result file is the last
  statement of the \<open>try\<close> block.
\<close>

definition processResults ::
  "storage \<Rightarrow> results_world \<Rightarrow> execution_result \<Rightarrow> string \<Rightarrow> (string \<times> execution_result) list
     \<Rightarrow> execution_result \<times> (string \<times> execution_result) list" where
  "processResults cfg rw result sid stored =
     (let resultsDir = joinPath (st_results cfg) sid
      in case rw_ensureDir rw of
           Some e \<Rightarrow> (result\<lparr>processingError := Some e\<rparr>, stored)
         | None \<Rightarrow>
             (case rw_json rw of
                BadJson e \<Rightarrow> (result\<lparr>processingError := Some e\<rparr>, stored)
              | j \<Rightarrow>
                  (let r1 = (case j of Json d \<Rightarrow> result\<lparr>detailedResults := Some (documentOf d)\<rparr> | _ \<Rightarrow> result);
                       r2 = r1\<lparr>artifacts := Some (processArtifacts cfg (rw_tree rw) (rw_copy rw) resultsDir sid)\<rparr>
                   in case summaryThrows r2 of
                        Some e \<Rightarrow> (r2\<lparr>processingError := Some e\<rparr>, stored)
                      | None \<Rightarrow>
                          (let r3 = r2\<lparr>r_summary := Some (generateExecutionSummary r2)\<rparr>;
                               resultFile = resultFileOf cfg sid
                           in case rw_writeJson rw of
                                Some e \<Rightarrow> (r3\<lparr>processingError := Some e\<rparr>, stored)
                              | None \<Rightarrow> (r3, AList.update resultFile r3 stored)))))"










section \<open>Workspace: createExecutionEnvironment and cleanup\<close>

text \<open>
  The file system is the list of workspace directories that exist. The environment
  says whether \<open>fs.ensureDir(executionDir)\<close> throws and whether a statement after it
  (the four writes, the generation of the configuration text) does. The contents of the
  files are not modelled.
\<close>

definition executionDirOf :: "storage \<Rightarrow> string \<Rightarrow> string" where
  "executionDirOf cfg sid = joinPath (st_tests cfg) (''execution-'' @ sid)"

definition createExecutionEnvironment ::
  "storage \<Rightarrow> js_error option \<Rightarrow> js_error option \<Rightarrow> string \<Rightarrow> string list \<Rightarrow> string list \<times> (js_error + string)" where
  "createExecutionEnvironment cfg ensureDirThrows writeThrows sid dirs =
     (let executionDir = executionDirOf cfg sid
      in case ensureDirThrows of
           Some e \<Rightarrow> (dirs, Inl e)
         | None \<Rightarrow>
             (case writeThrows of
                Some e \<Rightarrow> (List.insert executionDir dirs, Inl e)
              | None \<Rightarrow> (List.insert executionDir dirs, Inr executionDir)))"

text \<open>\<open>cleanup(executionDir)\<close>: an exception of \<open>fs.remove\<close> is logged, not raised.\<close>

definition cleanup :: "js_error option \<Rightarrow> string \<Rightarrow> string list \<Rightarrow> string list" where
  "cleanup removeThrows executionDir dirs =
     (case removeThrows of Some e \<Rightarrow> dirs | None \<Rightarrow> removeAll executionDir dirs)"

section \<open>MCPExecutor: executeTest, executeTestNow and processQueue\<close>

text \<open>An entry of \<open>executionQueue\<close>: \<open>{ testData, sessionId, streamingService }\<close>.\<close>

record request =
  q_testData :: test_data
  q_sessionId :: string

text \<open>
  Who holds the promise of a call of \<open>executeTestNow\<close>: \<open>executeTest\<close> awaits it and
  returns its outcome to its own caller (\<open>return await this.executeTestNow(...)\<close>);
  \<open>processQueue\<close> calls \<open>this.executeTestNow(...)\<close> as a statement and keeps nothing.
\<close>

datatype origin = Awaited | Floating

text \<open>
  How the promise returned by \<open>executeTest\<close> settled for its caller: resolved with
  \<open>{ status: 'queued', sessionId }\<close>, resolved with the processed result, or rejected.
\<close>

datatype reply = Queued | Resolved execution_result | Rejected js_error

text \<open>
  Everything the environment decides in one execution: the file system calls of the
  workspace, the events of the \<open>npm install\<close> process, the global scope, the events the
  test-runner process would emit and the two clock readings around it, the environment of
  \<open>processResults\<close>, and whether \<open>fs.remove\<close> throws.
\<close>

record world =
  w_ensureDir :: "js_error option"
  w_writeFiles :: "js_error option"
  w_npm :: "proc_event list"
  w_global :: scope
  w_runner :: "proc_event list"
  w_start :: int
  w_fin :: int
  w_results :: results_world
  w_remove :: "js_error option"

text \<open>
  The executor with what it acts on. \<open>activeExecutions\<close> is the \<open>Map\<close> from sessionId in
  insertion order (the entry keeps \<open>testData\<close>), \<open>executionQueue\<close> the array. \<open>broadcasts\<close>
  are the messages passed to \<open>streamingService.broadcast\<close>, oldest first; \<open>pending\<close> the
  calls of \<open>executeTestNow\<close> whose awaited steps are still to run; \<open>started\<close> every call of
  \<open>executeTestNow\<close> ever made, in order; \<open>replies\<close> how the promises of \<open>executeTest\<close>
  settled, in order; \<open>dirs\<close> the workspace directories that exist; \<open>resultFiles\<close> the result
  files of durable storage.
\<close>

record executor =
  storageCfg :: storage
  maxConcurrent :: nat
  activeExecutions :: "(string \<times> test_data) list"
  executionQueue :: "request list"
  broadcasts :: "event list"
  pending :: "(request \<times> origin) list"
  started :: "(request \<times> origin) list"
  replies :: "(request \<times> reply) list"
  dirs :: "string list"
  resultFiles :: "(string \<times> execution_result) list"

definition newExecutor :: "storage \<Rightarrow> nat \<Rightarrow> executor" where
  "newExecutor cfg maxConcurrentTests =
     \<lparr>storageCfg = cfg, maxConcurrent = maxConcurrentTests, activeExecutions = [],
      executionQueue = [], broadcasts = [], pending = [], started = [], replies = [],
      dirs = [], resultFiles = []\<rparr>"

text \<open>
  \<open>executeTestNow\<close> up to its first \<open>await\<close>: the entry is set in the map and
  \<open>execution-started\<close> is broadcast; the call is then pending.
\<close>

definition executeTestNowBegin :: "request \<Rightarrow> origin \<Rightarrow> executor \<Rightarrow> executor" where
  "executeTestNowBegin rq og ex =
     ex\<lparr>activeExecutions := AList.update (q_sessionId rq) (q_testData rq) (activeExecutions ex),
        broadcasts := broadcasts ex @ [ExecutionStarted (q_sessionId rq) (td_id (q_testData rq))],
        pending := pending ex @ [(rq, og)],
        started := started ex @ [(rq, og)]\<rparr>"

text \<open>\<open>processQueue()\<close>.\<close>

definition processQueue :: "executor \<Rightarrow> executor" where
  "processQueue ex =
     (case executionQueue ex of
        [] \<Rightarrow> ex
      | rq # rest \<Rightarrow>
          if length (activeExecutions ex) < maxConcurrent ex
          then executeTestNowBegin rq Floating (ex\<lparr>executionQueue := rest\<rparr>)
          else ex)"

text \<open>\<open>executeTest(testData, sessionId, streamingService)\<close> up to its first \<open>await\<close>.\<close>

definition executeTest :: "request \<Rightarrow> executor \<Rightarrow> executor" where
  "executeTest rq ex =
     (if length (activeExecutions ex) \<ge> maxConcurrent ex
      then ex\<lparr>executionQueue := executionQueue ex @ [rq],
              broadcasts := broadcasts ex @ [ExecutionQueued (q_sessionId rq) (length (executionQueue ex) + 1)],
              replies := replies ex @ [(rq, Queued)]\<rparr>
      else executeTestNowBegin rq Awaited ex)"

text \<open>
  The awaited steps of \<open>executeTestNow\<close> inside its \<open>try\<close> block, from
  \<open>createExecutionEnvironment\<close> to \<open>cleanup\<close>: the directories and result files they
  leave, the messages they broadcast, and the outcome (\<open>None\<close> when an awaited promise never
  settles). An exception of any step skips the steps after it.
\<close>

record exec_outcome =
  eo_dirs :: "string list"
  eo_files :: "(string \<times> execution_result) list"
  eo_sent :: "event list"
  eo_promise :: "(js_error + execution_result) option"

definition executeTestNowRun ::
  "storage \<Rightarrow> world \<Rightarrow> request \<Rightarrow> string list \<Rightarrow> (string \<times> execution_result) list \<Rightarrow> exec_outcome" where
  "executeTestNowRun cfg w rq ds files =
     (case createExecutionEnvironment cfg (w_ensureDir w) (w_writeFiles w) (q_sessionId rq) ds of
        (ds1, Inl e) \<Rightarrow> \<lparr>eo_dirs = ds1, eo_files = files, eo_sent = [], eo_promise = Some (Inl e)\<rparr>
      | (ds1, Inr executionDir) \<Rightarrow>
          (let ran = runTest (w_global w) (w_npm w) (w_runner w) (w_start w) (w_fin w)
                       (q_testData rq) (q_sessionId rq) executionDir
           in case ro_promise ran of
                None \<Rightarrow> \<lparr>eo_dirs = ds1, eo_files = files, eo_sent = ro_sent ran, eo_promise = None\<rparr>
              | Some (Inl e) \<Rightarrow>
                  \<lparr>eo_dirs = ds1, eo_files = files, eo_sent = ro_sent ran, eo_promise = Some (Inl e)\<rparr>
              | Some (Inr result) \<Rightarrow>
                  (let (processed, files1) = processResults cfg (w_results w) result (q_sessionId rq) files;
                       ds2 = cleanup (w_remove w) executionDir ds1
                   in \<lparr>eo_dirs = ds2, eo_files = files1, eo_sent = ro_sent ran,
                        eo_promise = Some (Inr processed)\<rparr>)))"

text \<open>
  The end of \<open>executeTestNow\<close>, on both paths: \<open>this.activeExecutions.delete(sessionId);
  this.processQueue();\<close>.
\<close>

definition release :: "string \<Rightarrow> executor \<Rightarrow> executor" where
  "release sid ex = processQueue (ex\<lparr>activeExecutions := AList.delete sid (activeExecutions ex)\<rparr>)"

text \<open>
  A pending call of \<open>executeTestNow\<close> runs to its end in the world \<open>w\<close>. When its steps
  settle, the slot is released and the outcome goes to the holder of the promise: an
  awaited call settles the promise of \<open>executeTest\<close> with it, a floating call has no
  holder. When a step never settles, neither the \<open>return\<close> nor the \<open>catch\<close> block is
  reached.
\<close>

definition executeTestNowEnd :: "request \<Rightarrow> origin \<Rightarrow> world \<Rightarrow> executor \<Rightarrow> executor" where
  "executeTestNowEnd rq og w ex =
     (let out = executeTestNowRun (storageCfg ex) w rq (dirs ex) (resultFiles ex);
          ex1 = ex\<lparr>dirs := eo_dirs out, resultFiles := eo_files out,
                   broadcasts := broadcasts ex @ eo_sent out\<rparr>
      in case eo_promise out of
           None \<Rightarrow> ex1
         | Some res \<Rightarrow>
             (let ex2 = release (q_sessionId rq) ex1
              in case og of
                   Floating \<Rightarrow> ex2
                 | Awaited \<Rightarrow>
                     ex2\<lparr>replies := replies ex2 @
                           [(rq, case res of Inl e \<Rightarrow> Rejected e | Inr r \<Rightarrow> Resolved r)]\<rparr>))"

text \<open>
  What can happen to an executor: a caller submits a request, or a pending call of
  \<open>executeTestNow\<close> runs to its end. Each is one uninterrupted turn of the event loop
  as far as the map and the queue are concerned.
\<close>

datatype action = Submit request | Settle request origin world

fun step :: "executor \<Rightarrow> action \<Rightarrow> executor" where
  "step ex (Submit rq) = executeTest rq ex"
| "step ex (Settle rq og w) =
     (if (rq, og) \<in> set (pending ex)
      then executeTestNowEnd rq og w (ex\<lparr>pending := remove1 (rq, og) (pending ex)\<rparr>)
      else ex)"

definition run :: "executor \<Rightarrow> action list \<Rightarrow> executor" where
  "run ex acts = foldl step ex acts"

text \<open>
  The requests promoted from the queue so far, and the requests queued so far, each in
  the order it happened.
\<close>

definition promoted :: "executor \<Rightarrow> request list" where
  "promoted ex = map fst (filter (\<lambda>x. snd x = Floating) (started ex))"

definition queuedSoFar :: "executor \<Rightarrow> request list" where
  "queuedSoFar ex = map fst (filter (\<lambda>x. snd x = Queued) (replies ex))"

subsection \<open>Invariants of the scheduler\<close>

text \<open>
  The invariant of the scheduler: the map holds at most \<open>maxConcurrent\<close> entries, and the
  requests queued so far are those promoted so far followed by those still waiting.
\<close>

definition schedulerInv :: "executor \<Rightarrow> bool" where
  "schedulerInv ex = (length (activeExecutions ex) \<le> maxConcurrent ex \<and> promoted ex @ executionQueue ex = queuedSoFar ex)"

text \<open>
  SessionIds as the data model wants them: a submitted request carries a sessionId that
  no active entry and no waiting request has. \<open>uniqueSessions ex acts\<close> says so of every
  submission of \<open>acts\<close>, run from \<open>ex\<close>.
\<close>

definition sessionFresh :: "executor \<Rightarrow> request \<Rightarrow> bool" where
  "sessionFresh ex rq =
     (q_sessionId rq \<notin> set (map fst (activeExecutions ex))
      \<and> q_sessionId rq \<notin> set (map q_sessionId (executionQueue ex)))"

fun uniqueSessions :: "executor \<Rightarrow> action list \<Rightarrow> bool" where
  "uniqueSessions ex [] = True"
| "uniqueSessions ex (Submit rq # acts) = (sessionFresh ex rq \<and> uniqueSessions (step ex (Submit rq)) acts)"
| "uniqueSessions ex (Settle rq og w # acts) = uniqueSessions (step ex (Settle rq og w)) acts"

text \<open>
  The invariant that unique sessionIds maintain: the ids of the map, of the queue and of
  the pending calls are each distinct, no waiting id is active, every pending call has its
  entry, and requests wait only while the map is full.
\<close>

definition orderly :: "executor \<Rightarrow> bool" where
  "orderly ex =
     (distinct (map fst (activeExecutions ex))
      \<and> distinct (map q_sessionId (executionQueue ex))
      \<and> set (map q_sessionId (executionQueue ex)) \<inter> set (map fst (activeExecutions ex)) = {}
      \<and> distinct (map (\<lambda>p. q_sessionId (fst p)) (pending ex))
      \<and> set (map (\<lambda>p. q_sessionId (fst p)) (pending ex)) \<subseteq> set (map fst (activeExecutions ex))
      \<and> length (activeExecutions ex) \<le> maxConcurrent ex
      \<and> (executionQueue ex = [] \<or> length (activeExecutions ex) = maxConcurrent ex))"

section \<open>StreamingService\<close>

text \<open>
  A registered connection: the state of its WebSocket (\<open>readyState\<close>, 1 is \<open>OPEN\<close>;
  whether \<open>ws.send\<close> throws, which the environment decides; the messages \<open>ws.send\<close> has
  accepted, oldest first), the flag \<open>connected\<close> and the channels it subscribed to.
\<close>

record wire =
  wr_body :: string
  wr_channel :: "string option"
  wr_timestamp :: string

record connection =
  readyState :: nat
  sendThrows :: bool
  outbox :: "wire list"
  connected :: bool
  c_subscriptions :: "string list"

text \<open>
  The service: \<open>connections\<close> is the \<open>Map\<close> from connection id, \<open>subscriptions\<close> the \<open>Map\<close>
  from channel to the \<open>Set\<close> of subscribed connection ids, both in insertion order.
\<close>

record streaming =
  connections :: "(string \<times> connection) list"
  subscriptions :: "(string \<times> string list) list"

text \<open>A message as the callers pass it: its fields, and \<open>timestamp\<close> if it has one.\<close>

record message =
  m_body :: string
  m_timestamp :: "string option"

text \<open>
  \<open>JSON.stringify({ ...message, channel, timestamp: message.timestamp || now })\<close>: an
  absent or empty timestamp is replaced by the clock reading.
\<close>

definition stamp :: "string \<Rightarrow> string option \<Rightarrow> message \<Rightarrow> wire" where
  "stamp now channel m =
     \<lparr>wr_body = m_body m, wr_channel = channel,
      wr_timestamp = (case m_timestamp m of None \<Rightarrow> now | Some t \<Rightarrow> if t = [] then now else t)\<rparr>"

text \<open>
  \<open>removeConnection(connectionId)\<close>: an unknown id does nothing; otherwise the entry is
  deleted, the id is deleted from every subscriber set, and a channel whose set is then
  empty is deleted.
\<close>

definition removeConnection :: "string \<Rightarrow> streaming \<Rightarrow> streaming" where
  "removeConnection cid st =
     (case map_of (connections st) cid of
        None \<Rightarrow> st
      | Some c \<Rightarrow>
          st\<lparr>connections := AList.delete cid (connections st),
             subscriptions := filter (\<lambda>(channel, subscribers). subscribers \<noteq> [])
                                (map (\<lambda>(channel, subscribers). (channel, removeAll cid subscribers))
                                   (subscriptions st))\<rparr>)"

text \<open>
  The body of the \<open>forEach\<close> callbacks of \<open>broadcast\<close> and \<open>sendToChannel\<close> for one
  connection id: a registered connection that is \<open>connected\<close> with an open socket is sent
  the message; if \<open>ws.send\<close> throws, the connection is removed.
\<close>

definition sendTo :: "wire \<Rightarrow> string \<Rightarrow> streaming \<Rightarrow> streaming" where
  "sendTo msg cid st =
     (case map_of (connections st) cid of
        None \<Rightarrow> st
      | Some c \<Rightarrow>
          if connected c \<and> readyState c = 1
          then (if sendThrows c
                then removeConnection cid st
                else st\<lparr>connections := AList.update cid (c\<lparr>outbox := outbox c @ [msg]\<rparr>) (connections st)\<rparr>)
          else st)"

text \<open>
  \<open>broadcast(message)\<close> visits the entries of \<open>connections\<close> in order; the only entry a
  visit can delete is the visited one.
\<close>

definition broadcast :: "string \<Rightarrow> message \<Rightarrow> streaming \<Rightarrow> streaming" where
  "broadcast now m st = fold (sendTo (stamp now None m)) (map fst (connections st)) st"

text \<open>\<open>sendToChannel(channel, message)\<close>: nothing for a channel without subscribers.\<close>

definition sendToChannel :: "string \<Rightarrow> string \<Rightarrow> message \<Rightarrow> streaming \<Rightarrow> streaming" where
  "sendToChannel now channel m st =
     (case map_of (subscriptions st) channel of
        None \<Rightarrow> st
      | Some subscribers \<Rightarrow> fold (sendTo (stamp now (Some channel) m)) subscribers st)"

text \<open>
  What one send attempt does to the registry entry of a connection, seen from that
  connection alone: a live connection receives the message, a connection whose send
  throws loses its entry, any other connection is left as it is.
\<close>

definition attempt :: "wire \<Rightarrow> connection option \<Rightarrow> connection option" where
  "attempt msg entry =
     (case entry of
        None \<Rightarrow> None
      | Some c \<Rightarrow>
          if connected c \<and> readyState c = 1
          then (if sendThrows c then None else Some (c\<lparr>outbox := outbox c @ [msg]\<rparr>))
          else Some c)"

section \<open>Sample requests and environments\<close>

text \<open>
  Requests and worlds used to run the model on concrete inputs: five requests (the second
  and third share sessionId \<open>b\<close>); a world in which everything the environment decides goes
  well (installation exits with 0, the test runner would exit with 0); the same world
  with an installation that exits with 1; and the same world with an \<open>npm\<close> that cannot be
  spawned.
\<close>

abbreviation requestA :: request where
  "requestA \<equiv> \<lparr>q_testData = \<lparr>td_id = ''t1'', td_code = []\<rparr>, q_sessionId = ''a''\<rparr>"

abbreviation requestB :: request where
  "requestB \<equiv> \<lparr>q_testData = \<lparr>td_id = ''t2'', td_code = []\<rparr>, q_sessionId = ''b''\<rparr>"

abbreviation requestB2 :: request where
  "requestB2 \<equiv> \<lparr>q_testData = \<lparr>td_id = ''t3'', td_code = []\<rparr>, q_sessionId = ''b''\<rparr>"

abbreviation requestC :: request where
  "requestC \<equiv> \<lparr>q_testData = \<lparr>td_id = ''t4'', td_code = []\<rparr>, q_sessionId = ''c''\<rparr>"

abbreviation requestD :: request where
  "requestD \<equiv> \<lparr>q_testData = \<lparr>td_id = ''t5'', td_code = []\<rparr>, q_sessionId = ''d''\<rparr>"

abbreviation worldAllGood :: world where
  "worldAllGood \<equiv> \<lparr>w_ensureDir = None, w_writeFiles = None, w_npm = [CloseEv (Some 0)],
     w_global = [(''process'', Initialized (Obj [(''env'', Obj [])]))],
     w_runner = [CloseEv (Some 0)], w_start = 0, w_fin = 9,
     w_results = \<lparr>rw_ensureDir = None, rw_json = NoFile, rw_tree = Some [], rw_copy = [],
                   rw_writeJson = None\<rparr>,
     w_remove = None\<rparr>"

abbreviation worldInstallFails :: world where
  "worldInstallFails \<equiv> \<lparr>w_ensureDir = None, w_writeFiles = None, w_npm = [CloseEv (Some 1)],
     w_global = [(''process'', Initialized (Obj [(''env'', Obj [])]))],
     w_runner = [CloseEv (Some 0)], w_start = 0, w_fin = 9,
     w_results = \<lparr>rw_ensureDir = None, rw_json = NoFile, rw_tree = Some [], rw_copy = [],
                   rw_writeJson = None\<rparr>,
     w_remove = None\<rparr>"

abbreviation worldNpmMissing :: world where
  "worldNpmMissing \<equiv> \<lparr>w_ensureDir = None, w_writeFiles = None,
     w_npm = [ErrorEv (SystemError ''spawn npm ENOENT''), CloseEv (Some (- 2))],
     w_global = [(''process'', Initialized (Obj [(''env'', Obj [])]))],
     w_runner = [CloseEv (Some 0)], w_start = 0, w_fin = 9,
     w_results = \<lparr>rw_ensureDir = None, rw_json = NoFile, rw_tree = Some [], rw_copy = [],
                   rw_writeJson = None\<rparr>,
     w_remove = None\<rparr>"

text \<open>
  A service with three connections: \<open>c1\<close> whose socket is closed (\<open>readyState\<close> 3), \<open>c2\<close>
  whose \<open>send\<close> throws, \<open>c3\<close> live; \<open>c2\<close> and \<open>c3\<close> subscribe to channel \<open>x\<close>.
\<close>

abbreviation sampleService :: streaming where
  "sampleService \<equiv>
     \<lparr>connections =
        [(''c1'', \<lparr>readyState = 3, sendThrows = False, outbox = [], connected = True, c_subscriptions = []\<rparr>),
         (''c2'', \<lparr>readyState = 1, sendThrows = True, outbox = [], connected = True, c_subscriptions = [''x'']\<rparr>),
         (''c3'', \<lparr>readyState = 1, sendThrows = False, outbox = [], connected = True, c_subscriptions = [''x'']\<rparr>)],
      subscriptions = [(''x'', [''c2'', ''c3''])]\<rparr>"







section \<open>Verified properties\<close>

subsection \<open>The tally visits every leaf test\<close>

lemma countTest_eq:
  "countTest t s = s\<lparr>testCount := testCount s + 1,
     passedCount := passedCount s + (if outcome t = Some ''expected'' then 1 else 0),
     failedCount := failedCount s + (if outcome t = Some ''unexpected'' then 1 else 0),
     skippedCount := skippedCount s + (if outcome t = Some ''skipped'' then 1 else 0)\<rparr>"
  by (simp add: countTest_def Let_def)

lemma tally_Nil: "tally [] s = s"
  by (simp add: tally_def countOutcome_def)

lemma tally_append: "tally (xs @ ys) s = tally ys (tally xs s)"
  by (simp add: tally_def countOutcome_def)

lemma fold_countTest: "fold countTest ts s = tally ts s"
proof (induction ts arbitrary: s)
  case Nil
  show ?case by (simp add: tally_Nil)
next
  case (Cons t ts)
  have "tally (t # ts) s = tally ts (tally [t] s)"
    using tally_append [of "[t]" ts s] by simp
  moreover have "tally [t] s = countTest t s"
    by (simp add: tally_def countOutcome_def countTest_eq)
  ultimately show ?case using Cons by simp
qed

lemma countSpec_tally: "countSpec sp s = tally (specTests sp) s"
  by (simp add: countSpec_def specTests_def fold_countTest tally_Nil split: option.splits)

lemma fold_countSpec: "fold countSpec sps s = tally (concat (map specTests sps)) s"
  by (induction sps arbitrary: s) (simp_all add: tally_Nil tally_append countSpec_tally)

lemma countTestResults_tally: "countTestResults ss s = tally (leafTests ss) s"
proof (induction ss s rule: countTestResults.induct)
  case (1 s)
  show ?case by (simp add: tally_Nil)
next
  case (2 sp su rest s)
  then show ?case
    by (cases sp; cases su) (simp_all add: tally_append tally_Nil fold_countSpec)
qed

text \<open>
  C7 (as amended). For a result whose structured document has a suite tree \<open>ss\<close> of any
  depth, the summary counts every leaf test once in \<open>testCount\<close>, counts it as passed iff
  its outcome is \<open>expected\<close>, as failed iff it is \<open>unexpected\<close>, and as skipped iff it is
  literally \<open>skipped\<close>; a leaf with any other outcome (or none) adds to \<open>testCount\<close>
  only. \<open>avgTestTime\<close> is \<open>duration / testCount\<close>, and 0 when \<open>testCount\<close> is 0.
\<close>

theorem summary_tallies_leaf_tests:
  assumes "detailedResults r = Some (Detailed (Some ss))"
  shows "testCount (generateExecutionSummary r) = length (leafTests ss)
    \<and> passedCount (generateExecutionSummary r) = countOutcome ''expected'' (leafTests ss)
    \<and> failedCount (generateExecutionSummary r) = countOutcome ''unexpected'' (leafTests ss)
    \<and> skippedCount (generateExecutionSummary r) = countOutcome ''skipped'' (leafTests ss)
    \<and> performance (generateExecutionSummary r) =
        Some \<lparr>executionTime = duration r,
              avgTestTime = (if length (leafTests ss) > 0
                             then real_of_int (duration r) / real (length (leafTests ss))
                             else 0)\<rparr>"
  using assms
  by (simp add: generateExecutionSummary_def Let_def countTestResults_tally tally_def)

text \<open>
  The tree of the specification's example: two levels, three leaf tests, two \<open>expected\<close>
  and one \<open>unexpected\<close>, in a run of 9 ms.
\<close>

theorem summary_tallies_leaf_tests_witness:
  "testCount (generateExecutionSummary
      ((closeResult (Some 1) [] [] 0 9 ''s'' \<lparr>td_id = ''t1'', td_code = []\<rparr>)\<lparr>detailedResults := Some (Detailed (Some
        [Suite (Some [Spec (Some [Test (Some ''expected'')])])
           (Some [Suite (Some [Spec (Some [Test (Some ''expected''), Test (Some ''unexpected'')])])
              None])]))\<rparr>)) = 3
   \<and> passedCount (generateExecutionSummary
      ((closeResult (Some 1) [] [] 0 9 ''s'' \<lparr>td_id = ''t1'', td_code = []\<rparr>)\<lparr>detailedResults := Some (Detailed (Some
        [Suite (Some [Spec (Some [Test (Some ''expected'')])])
           (Some [Suite (Some [Spec (Some [Test (Some ''expected''), Test (Some ''unexpected'')])])
              None])]))\<rparr>)) = 2
   \<and> failedCount (generateExecutionSummary
      ((closeResult (Some 1) [] [] 0 9 ''s'' \<lparr>td_id = ''t1'', td_code = []\<rparr>)\<lparr>detailedResults := Some (Detailed (Some
        [Suite (Some [Spec (Some [Test (Some ''expected'')])])
           (Some [Suite (Some [Spec (Some [Test (Some ''expected''), Test (Some ''unexpected'')])])
              None])]))\<rparr>)) = 1
   \<and> skippedCount (generateExecutionSummary
      ((closeResult (Some 1) [] [] 0 9 ''s'' \<lparr>td_id = ''t1'', td_code = []\<rparr>)\<lparr>detailedResults := Some (Detailed (Some
        [Suite (Some [Spec (Some [Test (Some ''expected'')])])
           (Some [Suite (Some [Spec (Some [Test (Some ''expected''), Test (Some ''unexpected'')])])
              None])]))\<rparr>)) = 0
   \<and> performance (generateExecutionSummary
      ((closeResult (Some 1) [] [] 0 9 ''s'' \<lparr>td_id = ''t1'', td_code = []\<rparr>)\<lparr>detailedResults := Some (Detailed (Some
        [Suite (Some [Spec (Some [Test (Some ''expected'')])])
           (Some [Suite (Some [Spec (Some [Test (Some ''expected''), Test (Some ''unexpected'')])])
              None])]))\<rparr>)) = Some \<lparr>executionTime = 9, avgTestTime = 3\<rparr>"
  using summary_tallies_leaf_tests
    [of "(closeResult (Some 1) [] [] 0 9 ''s'' \<lparr>td_id = ''t1'', td_code = []\<rparr>)\<lparr>detailedResults := Some (Detailed (Some
        [Suite (Some [Spec (Some [Test (Some ''expected'')])])
           (Some [Suite (Some [Spec (Some [Test (Some ''expected''), Test (Some ''unexpected'')])])
              None])]))\<rparr>"
        "[Suite (Some [Spec (Some [Test (Some ''expected'')])])
           (Some [Suite (Some [Spec (Some [Test (Some ''expected''), Test (Some ''unexpected'')])])
              None])]"]
  by (simp add: closeResult_def specTests_def countOutcome_def)

text \<open>
  The claim as stated counts a leaf as skipped whenever its outcome is neither
  \<open>expected\<close> nor \<open>unexpected\<close>. A single test with outcome \<open>flaky\<close> is such a leaf,
  and the summary counts it in \<open>testCount\<close> but not in \<open>skippedCount\<close>.
\<close>

theorem skipped_otherwise_counterexample:
  "countOther (leafTests [Suite (Some [Spec (Some [Test (Some ''flaky'')])]) None]) = 1
   \<and> testCount (generateExecutionSummary
      ((closeResult (Some 0) [] [] 0 9 ''s'' \<lparr>td_id = ''t1'', td_code = []\<rparr>)\<lparr>detailedResults := Some (Detailed (Some
        [Suite (Some [Spec (Some [Test (Some ''flaky'')])]) None]))\<rparr>)) = 1
   \<and> skippedCount (generateExecutionSummary
      ((closeResult (Some 0) [] [] 0 9 ''s'' \<lparr>td_id = ''t1'', td_code = []\<rparr>)\<lparr>detailedResults := Some (Detailed (Some
        [Suite (Some [Spec (Some [Test (Some ''flaky'')])]) None]))\<rparr>)) = 0"
  by (simp add: generateExecutionSummary_def Let_def countSpec_def countTest_def
      closeResult_def countOther_def otherOutcome_def specTests_def)

subsection \<open>runTest: the spawn call reads its own uninitialised binding\<close>

lemma spawnCall_uninitialized:
  "spawnCall (initialize ''args'' a thenBodyScope # outerScopes gl td sid dir) =
     Inl (ReferenceError ''Cannot access process before initialization'')"
  by (simp add: spawnCall_def initialize_def thenBodyScope_def outerScopes_def executorScope_def
      runTestScope_def moduleScope_def)

lemma runTest_installed:
  assumes "promise (installDependencies sid npm) = Some (Inr ())"
  shows "runTest gl npm runner start fin td sid dir =
     \<lparr>ro_sent = sent (installDependencies sid npm), ro_spawned = [''npm''],
      ro_promise = Some (Inl (ReferenceError ''Cannot access process before initialization''))\<rparr>"
  using assms by (simp add: runTest_def Let_def spawnCall_uninitialized)

lemma runTest_install_rejected:
  assumes "promise (installDependencies sid npm) = Some (Inl e)"
  shows "runTest gl npm runner start fin td sid dir =
     \<lparr>ro_sent = sent (installDependencies sid npm), ro_spawned = [''npm''],
      ro_promise = Some (Inl e)\<rparr>"
  using assms by (simp add: runTest_def Let_def)

lemma runTest_install_pending:
  assumes "promise (installDependencies sid npm) = None"
  shows "runTest gl npm runner start fin td sid dir =
     \<lparr>ro_sent = sent (installDependencies sid npm), ro_spawned = [''npm''],
      ro_promise = None\<rparr>"
  using assms by (simp add: runTest_def Let_def)

lemma runTest_never_resolves:
  "ro_promise (runTest gl npm runner start fin td sid dir) \<noteq> Some (Inr r)"
proof (cases "promise (installDependencies sid npm)")
  case None
  then show ?thesis by (simp add: runTest_install_pending)
next
  case (Some x)
  then show ?thesis
    by (cases x) (simp_all add: runTest_install_rejected runTest_installed)
qed

text \<open>
  C3. In every call of \<open>runTest\<close> whose dependency installation resolves, whatever the
  global scope, the test definition and the behaviour the test runner would have had:
  evaluating the \<open>spawn\<close> call throws the \<open>ReferenceError\<close> of reading the block's own
  \<open>process\<close> before its initialisation, the only command spawned is \<open>npm\<close> (the test
  runner \<open>npx\<close> never is), and the promise of \<open>runTest\<close> is rejected with that error.
\<close>

theorem runTest_spawn_throws_ReferenceError:
  assumes "promise (installDependencies sid npm) = Some (Inr ())"
  shows "spawnCall (initialize ''args''
             (Arr [Str ''playwright'', Str ''test'', Str ''--config'', Str ''playwright.config.ts''])
             thenBodyScope # outerScopes gl td sid dir)
           = Inl (ReferenceError ''Cannot access process before initialization'')
     \<and> ro_spawned (runTest gl npm runner start fin td sid dir) = [''npm'']
     \<and> ro_promise (runTest gl npm runner start fin td sid dir)
           = Some (Inl (ReferenceError ''Cannot access process before initialization''))"
  using assms by (simp add: runTest_installed spawnCall_uninitialized)

text \<open>
  An installation that prints a line and exits with code 0, under a global scope that
  binds \<open>process\<close> with an \<open>env\<close> object, and a test runner that would have passed.
\<close>

theorem runTest_spawn_throws_ReferenceError_witness:
  "promise (installDependencies ''s1'' [StdoutData ''added 3 packages'', CloseEv (Some 0)]) = Some (Inr ())
   \<and> ro_spawned (runTest [(''process'', Initialized (Obj [(''env'', Obj [(''PATH'', Str ''/usr/bin'')])]))]
         [StdoutData ''added 3 packages'', CloseEv (Some 0)] [StdoutData ''1 passed'', CloseEv (Some 0)] 0 9
         \<lparr>td_id = ''t1'', td_code = ''test()''\<rparr> ''s1'' ''./data/tests/execution-s1'') = [''npm'']
   \<and> ro_promise (runTest [(''process'', Initialized (Obj [(''env'', Obj [(''PATH'', Str ''/usr/bin'')])]))]
         [StdoutData ''added 3 packages'', CloseEv (Some 0)] [StdoutData ''1 passed'', CloseEv (Some 0)] 0 9
         \<lparr>td_id = ''t1'', td_code = ''test()''\<rparr> ''s1'' ''./data/tests/execution-s1'')
       = Some (Inl (ReferenceError ''Cannot access process before initialization''))"
  using runTest_spawn_throws_ReferenceError [of "''s1''" "[StdoutData ''added 3 packages'', CloseEv (Some 0)]"
      "[(''process'', Initialized (Obj [(''env'', Obj [(''PATH'', Str ''/usr/bin'')])]))]"
      "\<lparr>td_id = ''t1'', td_code = ''test()''\<rparr>" "''./data/tests/execution-s1''"
      "[StdoutData ''1 passed'', CloseEv (Some 0)]" 0 9]
  by (simp add: installDependencies_def settle_def)

subsection \<open>runTest: the close handler\<close>

text \<open>
  The \<open>close\<close> handler taken alone: run with exit code \<open>c\<close> on a promise not yet settled,
  it resolves the promise with a result whose status is \<open>passed\<close> iff \<open>c\<close> is 0, and which
  records the exit code, the two clock readings and their difference.
\<close>

lemma close_handler_result:
  assumes "promise h = None"
  shows "promise (runnerHandler td sid start fin (CloseEv c) h)
           = Some (Inr (closeResult c (outputAcc h) (errorOutputAcc h) start fin sid td))
     \<and> (status (closeResult c (outputAcc h) (errorOutputAcc h) start fin sid td) = Passed \<longleftrightarrow> c = Some 0)
     \<and> (status (closeResult c (outputAcc h) (errorOutputAcc h) start fin sid td) = Failed \<longleftrightarrow> c \<noteq> Some 0)
     \<and> exitCode (closeResult c (outputAcc h) (errorOutputAcc h) start fin sid td) = c
     \<and> startTime (closeResult c (outputAcc h) (errorOutputAcc h) start fin sid td) = start
     \<and> endTime (closeResult c (outputAcc h) (errorOutputAcc h) start fin sid td) = fin
     \<and> duration (closeResult c (outputAcc h) (errorOutputAcc h) start fin sid td) = fin - start"
  using assms by (simp add: Let_def settle_def closeResult_def)

text \<open>
  C4 (the code departs from the claim). The handler is registered after the \<open>spawn\<close> call,
  which throws: whatever the test runner would do, \<open>runTest\<close> never resolves with a
  result. In an execution whose installation succeeds and whose test runner would exit
  with code 0, and in one whose test runner would exit with code 7, the caller gets the
  rejection with the \<open>ReferenceError\<close>, and the messages broadcast are the three listed:
  no \<open>test-completed\<close>, no result with a status.
\<close>

theorem test_runner_exit_yields_no_result:
  "ro_promise (runTest gl npm runner start fin td sid dir) \<noteq> Some (Inr r)
   \<and> replies (run (newExecutor configStorage 1) [Submit requestA, Settle requestA Awaited worldAllGood])
       = [(requestA, Rejected (ReferenceError ''Cannot access process before initialization''))]
   \<and> broadcasts (run (newExecutor configStorage 1) [Submit requestA, Settle requestA Awaited worldAllGood])
       = [ExecutionStarted ''a'' ''t1'', DependencyInstallationStarted ''a'',
          DependencyInstallationCompleted ''a'']
   \<and> replies (run (newExecutor configStorage 1)
        [Submit requestA, Settle requestA Awaited (worldAllGood\<lparr>w_runner := [CloseEv (Some 7)]\<rparr>)])
       = [(requestA, Rejected (ReferenceError ''Cannot access process before initialization''))]
   \<and> broadcasts (run (newExecutor configStorage 1)
        [Submit requestA, Settle requestA Awaited (worldAllGood\<lparr>w_runner := [CloseEv (Some 7)]\<rparr>)])
       = [ExecutionStarted ''a'' ''t1'', DependencyInstallationStarted ''a'',
          DependencyInstallationCompleted ''a'']"
  using runTest_never_resolves [of gl npm runner start fin td sid dir r]
  by (simp add: run_def newExecutor_def executeTest_def executeTestNowBegin_def executeTestNowEnd_def
      executeTestNowRun_def createExecutionEnvironment_def runTest_installed runTest_install_rejected
      installDependencies_def settle_def release_def processQueue_def Let_def)

subsection \<open>processResults: what happens to a post-processing exception\<close>













subsection \<open>processArtifacts: storage names\<close>

text \<open>
  C9 (as amended). For two executions with distinct sessionIds, the storage names
  \<open>{sessionId}-{originalName}\<close> of two output files differ whenever the files have the
  same base name, and whenever the two sessionIds have the same length.
\<close>

theorem artifact_names_distinct_sessions:
  assumes "s1 \<noteq> s2" and "basename f1 = basename f2 \<or> length s1 = length s2"
  shows "artifactFilename s1 f1 \<noteq> artifactFilename s2 f2"
  using assms by (auto simp add: artifactFilename_def append_eq_append_conv)

theorem artifact_names_distinct_sessions_witness:
  "''run1'' \<noteq> ''run2''
   \<and> basename ''./data/results/run1/shot.png'' = basename ''./data/results/run2/shot.png''
   \<and> artifactFilename ''run1'' ''./data/results/run1/shot.png'' = ''run1-shot.png''
   \<and> artifactFilename ''run2'' ''./data/results/run2/shot.png'' = ''run2-shot.png''
   \<and> artifactFilename ''run1'' ''./data/results/run1/shot.png''
       \<noteq> artifactFilename ''run2'' ''./data/results/run2/shot.png''"
  using artifact_names_distinct_sessions
    [of "''run1''" "''run2''" "''./data/results/run1/shot.png''" "''./data/results/run2/shot.png''"]
  by (simp add: artifactFilename_def basename_def)

text \<open>
  The claim as stated covers any two output files. The sessionIds \<open>a\<close> and \<open>a-b\<close> are
  distinct, and the files \<open>b-c.png\<close> of the first and \<open>c.png\<close> of the second get the same
  storage name \<open>a-b-c.png\<close>.
\<close>

theorem artifact_names_collide_counterexample:
  "''a'' \<noteq> ''a-b''
   \<and> artifactFilename ''a'' ''./data/results/a/b-c.png'' = ''a-b-c.png''
   \<and> artifactFilename ''a-b'' ''./data/results/a-b/c.png'' = ''a-b-c.png''"
  by (simp add: artifactFilename_def basename_def)

subsection \<open>The scheduler: capacity and queue order\<close>

lemma length_update_le: "length (AList.update k v al) \<le> Suc (length al)"
  by (induction al) auto

lemma length_update_bound: "length al < n \<Longrightarrow> length (AList.update k v al) \<le> n"
  using length_update_le [of k v al] by simp

lemma length_delete_bound: "length (AList.delete k al) \<le> length al"
  by (simp add: AList.delete_eq)

lemma processQueue_maxConcurrent: "maxConcurrent (processQueue ex) = maxConcurrent ex"
  by (simp add: processQueue_def executeTestNowBegin_def split: list.splits)

lemma processQueue_capacity:
  "length (activeExecutions ex) \<le> maxConcurrent ex \<Longrightarrow>
   length (activeExecutions (processQueue ex)) \<le> maxConcurrent ex"
  by (simp add: processQueue_def executeTestNowBegin_def length_update_bound split: list.splits)

lemma processQueue_replies: "replies (processQueue ex) = replies ex"
  by (simp add: processQueue_def executeTestNowBegin_def split: list.splits)

lemma processQueue_fifo:
  "promoted (processQueue ex) @ executionQueue (processQueue ex) = promoted ex @ executionQueue ex"
  by (simp add: processQueue_def executeTestNowBegin_def promoted_def split: list.splits)

lemma executeTest_maxConcurrent: "maxConcurrent (executeTest rq ex) = maxConcurrent ex"
  by (simp add: executeTest_def executeTestNowBegin_def)

lemma executeTest_capacity:
  "length (activeExecutions ex) \<le> maxConcurrent ex \<Longrightarrow>
   length (activeExecutions (executeTest rq ex)) \<le> maxConcurrent ex"
  by (simp add: executeTest_def executeTestNowBegin_def length_update_bound)

lemma executeTest_fifo:
  "promoted ex @ executionQueue ex = queuedSoFar ex \<Longrightarrow>
   promoted (executeTest rq ex) @ executionQueue (executeTest rq ex) = queuedSoFar (executeTest rq ex)"
  by (auto simp add: executeTest_def executeTestNowBegin_def promoted_def queuedSoFar_def)

lemma release_maxConcurrent: "maxConcurrent (release sid ex) = maxConcurrent ex"
  by (simp add: release_def processQueue_maxConcurrent)

lemma release_capacity:
  "length (activeExecutions ex) \<le> maxConcurrent ex \<Longrightarrow>
   length (activeExecutions (release sid ex)) \<le> maxConcurrent ex"
  unfolding release_def
  using processQueue_capacity [of "ex\<lparr>activeExecutions := AList.delete sid (activeExecutions ex)\<rparr>"]
    length_delete_bound [of sid "activeExecutions ex"]
  by simp

lemma release_fifo:
  "promoted (release sid ex) @ executionQueue (release sid ex) = promoted ex @ executionQueue ex"
  unfolding release_def
  using processQueue_fifo [of "ex\<lparr>activeExecutions := AList.delete sid (activeExecutions ex)\<rparr>"]
  by (simp add: promoted_def)

lemma release_queuedSoFar: "queuedSoFar (release sid ex) = queuedSoFar ex"
  by (simp add: release_def queuedSoFar_def processQueue_replies)

lemma executeTestNowEnd_maxConcurrent: "maxConcurrent (executeTestNowEnd rq og w ex) = maxConcurrent ex"
  by (simp add: executeTestNowEnd_def Let_def release_maxConcurrent split: option.splits origin.splits)

lemma executeTestNowEnd_capacity:
  assumes "length (activeExecutions ex) \<le> maxConcurrent ex"
  shows "length (activeExecutions (executeTestNowEnd rq og w ex)) \<le> maxConcurrent ex"
proof -
  let ?out = "executeTestNowRun (storageCfg ex) w rq (dirs ex) (resultFiles ex)"
  let ?ex1 = "ex\<lparr>dirs := eo_dirs ?out, resultFiles := eo_files ?out, broadcasts := broadcasts ex @ eo_sent ?out\<rparr>"
  have "length (activeExecutions (release (q_sessionId rq) ?ex1)) \<le> maxConcurrent ex"
    using release_capacity [of ?ex1 "q_sessionId rq"] assms by simp
  then show ?thesis using assms
    by (simp add: executeTestNowEnd_def Let_def split: option.splits origin.splits)
qed

lemma executeTestNowEnd_fifo:
  assumes "promoted ex @ executionQueue ex = queuedSoFar ex"
  shows "promoted (executeTestNowEnd rq og w ex) @ executionQueue (executeTestNowEnd rq og w ex)
         = queuedSoFar (executeTestNowEnd rq og w ex)"
proof -
  let ?out = "executeTestNowRun (storageCfg ex) w rq (dirs ex) (resultFiles ex)"
  let ?ex1 = "ex\<lparr>dirs := eo_dirs ?out, resultFiles := eo_files ?out, broadcasts := broadcasts ex @ eo_sent ?out\<rparr>"
  have 1: "promoted ?ex1 = promoted ex" "queuedSoFar ?ex1 = queuedSoFar ex" "executionQueue ?ex1 = executionQueue ex"
    by (simp_all add: promoted_def queuedSoFar_def)
  have 2: "promoted (release (q_sessionId rq) ?ex1) @ executionQueue (release (q_sessionId rq) ?ex1) = queuedSoFar (release (q_sessionId rq) ?ex1)"
    using release_fifo [of "q_sessionId rq" ?ex1] release_queuedSoFar [of "q_sessionId rq" ?ex1] 1 assms by simp
  have 3: "\<And>e x y. promoted (e\<lparr>replies := replies e @ [(x, Rejected y)]\<rparr>) = promoted e"
     "\<And>e x y. promoted (e\<lparr>replies := replies e @ [(x, Resolved y)]\<rparr>) = promoted e"
     "\<And>e x y. queuedSoFar (e\<lparr>replies := replies e @ [(x, Rejected y)]\<rparr>) = queuedSoFar e"
     "\<And>e x y. queuedSoFar (e\<lparr>replies := replies e @ [(x, Resolved y)]\<rparr>) = queuedSoFar e"
    by (simp_all add: promoted_def queuedSoFar_def)
  show ?thesis using assms 1 2 3
    by (simp add: executeTestNowEnd_def Let_def split: option.splits origin.splits sum.splits)
qed

lemma step_maxConcurrent: "maxConcurrent (step ex a) = maxConcurrent ex"
  by (cases a) (simp_all add: executeTest_maxConcurrent executeTestNowEnd_maxConcurrent)

lemma step_inv: "schedulerInv ex \<Longrightarrow> schedulerInv (step ex a)"
proof (cases a)
  case (Submit rq)
  assume "schedulerInv ex"
  then show ?thesis using Submit executeTest_capacity [of ex rq] executeTest_fifo [of ex rq]
    by (simp add: schedulerInv_def executeTest_maxConcurrent)
next
  case (Settle rq og w)
  assume i: "schedulerInv ex"
  let ?ex0 = "ex\<lparr>pending := remove1 (rq, og) (pending ex)\<rparr>"
  have "schedulerInv ?ex0" using i by (simp add: schedulerInv_def promoted_def queuedSoFar_def)
  then have "schedulerInv (executeTestNowEnd rq og w ?ex0)"
    using executeTestNowEnd_capacity [of ?ex0 rq og w] executeTestNowEnd_fifo [of ?ex0 rq og w]
    by (simp add: schedulerInv_def executeTestNowEnd_maxConcurrent)
  then show ?thesis using Settle i by simp
qed

lemma run_inv: "schedulerInv ex \<Longrightarrow> schedulerInv (run ex acts)"
  unfolding run_def by (induction acts arbitrary: ex) (simp_all add: step_inv)

lemma run_maxConcurrent: "maxConcurrent (run ex acts) = maxConcurrent ex"
  unfolding run_def by (induction acts arbitrary: ex) (simp_all add: step_maxConcurrent)

lemma new_inv: "schedulerInv (newExecutor cfg n)"
  by (simp add: schedulerInv_def newExecutor_def promoted_def queuedSoFar_def)

lemma release_effect:
  "executionQueue (release sid ex) = executionQueue ex \<and> promoted (release sid ex) = promoted ex
   \<or> (\<exists>h rest. executionQueue ex = h # rest \<and> executionQueue (release sid ex) = rest
         \<and> promoted (release sid ex) = promoted ex @ [h]
         \<and> map_of (activeExecutions (release sid ex)) (q_sessionId h) = Some (q_testData h))"
  by (cases "executionQueue ex")
     (simp_all add: release_def processQueue_def executeTestNowBegin_def promoted_def update_conv')

lemma executeTestNowEnd_queue_effect:
  "executionQueue (executeTestNowEnd rq og w ex) = executionQueue ex
     \<and> promoted (executeTestNowEnd rq og w ex) = promoted ex
   \<or> (\<exists>h rest. executionQueue ex = h # rest \<and> executionQueue (executeTestNowEnd rq og w ex) = rest
         \<and> promoted (executeTestNowEnd rq og w ex) = promoted ex @ [h]
         \<and> map_of (activeExecutions (executeTestNowEnd rq og w ex)) (q_sessionId h) = Some (q_testData h))"
proof -
  let ?out = "executeTestNowRun (storageCfg ex) w rq (dirs ex) (resultFiles ex)"
  let ?ex1 = "ex\<lparr>dirs := eo_dirs ?out, resultFiles := eo_files ?out, broadcasts := broadcasts ex @ eo_sent ?out\<rparr>"
  have 1: "promoted ?ex1 = promoted ex" "executionQueue ?ex1 = executionQueue ex"
    by (simp_all add: promoted_def)
  have 3: "\<And>e x y. promoted (e\<lparr>replies := replies e @ [(x, y)]\<rparr>) = promoted e"
    by (simp add: promoted_def)
  show ?thesis
    using release_effect [of "q_sessionId rq" ?ex1] 1 3
    by (cases "eo_promise ?out"; cases og) (simp_all add: executeTestNowEnd_def Let_def)
qed

lemma step_settle_queue_effect:
  "executionQueue (step ex (Settle rq og w)) = executionQueue ex
     \<and> promoted (step ex (Settle rq og w)) = promoted ex
   \<or> (\<exists>h rest. executionQueue ex = h # rest \<and> executionQueue (step ex (Settle rq og w)) = rest
         \<and> promoted (step ex (Settle rq og w)) = promoted ex @ [h]
         \<and> map_of (activeExecutions (step ex (Settle rq og w))) (q_sessionId h) = Some (q_testData h))"
proof (cases "(rq, og) \<in> set (pending ex)")
  case True
  let ?ex0 = "ex\<lparr>pending := remove1 (rq, og) (pending ex)\<rparr>"
  have "promoted ?ex0 = promoted ex" "executionQueue ?ex0 = executionQueue ex"
    by (simp_all add: promoted_def)
  then show ?thesis using True executeTestNowEnd_queue_effect [of rq og w ?ex0] by simp
next
  case False
  then show ?thesis by simp
qed

lemma submit_when_full:
  "maxConcurrent ex \<le> length (activeExecutions ex) \<Longrightarrow>
   executionQueue (step ex (Submit rq)) = executionQueue ex @ [rq]
   \<and> activeExecutions (step ex (Submit rq)) = activeExecutions ex
   \<and> started (step ex (Submit rq)) = started ex"
  by (simp add: executeTest_def)

text \<open>
  C1. In every state \<open>ex\<close> the executor reaches from its initial state, by any sequence of
  submissions and of executions running to their end: the map \<open>activeExecutions\<close> holds
  at most \<open>maxConcurrentTests\<close> entries; a submission arriving while the map is full is
  appended to the queue and starts nothing; the end of an execution either leaves the
  queue as it is or removes exactly its head and admits it (it is the latest promotion and
  its entry is in the map); and the requests queued so far are, in order, the requests
  promoted so far followed by the queue: queued requests are admitted in the order they
  were submitted.
\<close>

theorem scheduler_capacity_and_fifo:
  assumes "ex = run (newExecutor cfg n) acts"
  shows "length (activeExecutions ex) \<le> n
    \<and> (n \<le> length (activeExecutions ex) \<longrightarrow>
          executionQueue (step ex (Submit rq)) = executionQueue ex @ [rq]
          \<and> activeExecutions (step ex (Submit rq)) = activeExecutions ex
          \<and> started (step ex (Submit rq)) = started ex)
    \<and> (executionQueue (step ex (Settle rq' og w)) = executionQueue ex
          \<and> promoted (step ex (Settle rq' og w)) = promoted ex
        \<or> (\<exists>h rest. executionQueue ex = h # rest \<and> executionQueue (step ex (Settle rq' og w)) = rest
              \<and> promoted (step ex (Settle rq' og w)) = promoted ex @ [h]
              \<and> map_of (activeExecutions (step ex (Settle rq' og w))) (q_sessionId h) = Some (q_testData h)))
    \<and> promoted ex @ executionQueue ex = queuedSoFar ex"
proof -
  have m: "maxConcurrent ex = n"
    using assms by (simp add: run_maxConcurrent newExecutor_def)
  have i: "schedulerInv ex"
    using assms run_inv [OF new_inv] by simp
  show ?thesis
    using m i submit_when_full [of ex rq] step_settle_queue_effect [of ex rq' og w]
    by (simp add: schedulerInv_def)
qed

text \<open>
  With capacity 1, after three submissions the first request runs and the other two
  wait. A fourth submission is appended behind them; the end of the first execution
  promotes the second request and leaves the third at the head.
\<close>

theorem scheduler_capacity_and_fifo_witness:
  "length (activeExecutions (run (newExecutor configStorage 1) [Submit requestA, Submit requestB, Submit requestC])) \<le> 1
   \<and> 1 \<le> length (activeExecutions (run (newExecutor configStorage 1) [Submit requestA, Submit requestB, Submit requestC]))
   \<and> executionQueue (run (newExecutor configStorage 1) [Submit requestA, Submit requestB, Submit requestC])
        = [requestB, requestC]
   \<and> executionQueue (step (run (newExecutor configStorage 1) [Submit requestA, Submit requestB, Submit requestC])
          (Submit requestD)) = [requestB, requestC, requestD]
   \<and> executionQueue (step (run (newExecutor configStorage 1) [Submit requestA, Submit requestB, Submit requestC])
          (Settle requestA Awaited worldAllGood)) = [requestC]
   \<and> promoted (step (run (newExecutor configStorage 1) [Submit requestA, Submit requestB, Submit requestC])
          (Settle requestA Awaited worldAllGood)) = [requestB]
   \<and> queuedSoFar (run (newExecutor configStorage 1) [Submit requestA, Submit requestB, Submit requestC])
        = [requestB, requestC]"
  using scheduler_capacity_and_fifo
     [of "run (newExecutor configStorage 1) [Submit requestA, Submit requestB, Submit requestC]"
      configStorage 1 "[Submit requestA, Submit requestB, Submit requestC]" requestD requestA Awaited worldAllGood]
  by (simp add: run_def newExecutor_def executeTest_def executeTestNowBegin_def executeTestNowEnd_def
      executeTestNowRun_def createExecutionEnvironment_def runTest_installed installDependencies_def
      settle_def release_def processQueue_def promoted_def queuedSoFar_def Let_def)

subsection \<open>The scheduler under unique sessionIds\<close>

lemma keys_update_fresh:
  "k \<notin> set (map fst al) \<Longrightarrow> map fst (AList.update k v al) = map fst al @ [k]"
  by (simp add: update_keys)

lemma length_delete_present:
  assumes "distinct (map fst al)" and "k \<in> set (map fst al)"
  shows "Suc (length (AList.delete k al)) = length al"
proof -
  have "length (AList.delete k al) = length (removeAll k (map fst al))"
    using delete_keys [of k al] by (metis length_map)
  also have "\<dots> = length (remove1 k (map fst al))"
    using assms(1) by (simp add: distinct_remove1_removeAll)
  also have "\<dots> = length (map fst al) - 1"
    using assms(2) by (simp add: length_remove1)
  finally show ?thesis using assms(2) by (cases al) auto
qed

lemma executeTest_orderly:
  assumes "orderly ex" and "sessionFresh ex rq"
  shows "orderly (executeTest rq ex)"
proof (cases "maxConcurrent ex \<le> length (activeExecutions ex)")
  case True
  then show ?thesis using assms
    by (auto simp add: orderly_def sessionFresh_def executeTest_def)
next
  case False
  then have q: "executionQueue ex = []" using assms(1) by (auto simp add: orderly_def)
  have k: "map fst (AList.update (q_sessionId rq) (q_testData rq) (activeExecutions ex))
             = map fst (activeExecutions ex) @ [q_sessionId rq]"
    using assms(2) by (simp add: sessionFresh_def keys_update_fresh)
  have l: "length (AList.update (q_sessionId rq) (q_testData rq) (activeExecutions ex))
             = Suc (length (activeExecutions ex))"
    using k by (metis length_map length_append_singleton)
  show ?thesis using False assms q k l
    by (auto simp add: orderly_def sessionFresh_def executeTest_def executeTestNowBegin_def)
qed

lemma release_orderly:
  assumes o: "orderly ex" and p: "sid \<in> set (map fst (activeExecutions ex))"
    and np: "sid \<notin> set (map (\<lambda>p. q_sessionId (fst p)) (pending ex))"
  shows "orderly (release sid ex)"
proof -
  let ?A = "AList.delete sid (activeExecutions ex)"
  have d: "distinct (map fst (activeExecutions ex))" using o by (simp add: orderly_def)
  have kA: "map fst ?A = removeAll sid (map fst (activeExecutions ex))" by (rule delete_keys)
  have lA: "Suc (length ?A) = length (activeExecutions ex)"
    using length_delete_present [OF d p] .
  show ?thesis
  proof (cases "executionQueue ex")
    case Nil
    then show ?thesis using o np kA lA
      by (auto simp add: orderly_def release_def processQueue_def distinct_removeAll)
  next
    case (Cons h rest)
    have full: "length (activeExecutions ex) = maxConcurrent ex"
      using o Cons by (auto simp add: orderly_def)
    have lt: "length ?A < maxConcurrent ex" using lA full by simp
    have hf: "q_sessionId h \<notin> set (map fst ?A)"
      using o Cons kA by (auto simp add: orderly_def)
    have kU: "map fst (AList.update (q_sessionId h) (q_testData h) ?A) = map fst ?A @ [q_sessionId h]"
      using hf by (rule keys_update_fresh)
    have lU: "length (AList.update (q_sessionId h) (q_testData h) ?A) = maxConcurrent ex"
      using kU lA full by (metis length_map length_append_singleton)
    have hp: "q_sessionId h \<notin> set (map (\<lambda>p. q_sessionId (fst p)) (pending ex))"
      using o Cons by (auto simp add: orderly_def)
    show ?thesis using o np Cons lt kU lU hp kA
      by (auto simp add: orderly_def release_def processQueue_def executeTestNowBegin_def distinct_removeAll)
  qed
qed

lemma distinct_map_remove1:
  "distinct (map f xs) \<Longrightarrow> distinct (map f (remove1 x xs))"
  by (induction xs) (auto dest: notin_set_remove1 [THEN notE, rotated] simp add: image_iff)

lemma remove1_image_fresh:
  "distinct (map f xs) \<Longrightarrow> x \<in> set xs \<Longrightarrow> f x \<notin> set (map f (remove1 x xs))"
  by (induction xs) (auto simp add: image_iff)

lemma orderly_cong:
  assumes "activeExecutions ex' = activeExecutions ex" and "executionQueue ex' = executionQueue ex"
    and "pending ex' = pending ex" and "maxConcurrent ex' = maxConcurrent ex"
  shows "orderly ex' = orderly ex"
  using assms by (simp add: orderly_def)

lemma settle_orderly:
  assumes o: "orderly ex" and p: "(rq, og) \<in> set (pending ex)"
  shows "orderly (executeTestNowEnd rq og w (ex\<lparr>pending := remove1 (rq, og) (pending ex)\<rparr>))"
proof -
  let ?ex0 = "ex\<lparr>pending := remove1 (rq, og) (pending ex)\<rparr>"
  let ?out = "executeTestNowRun (storageCfg ?ex0) w rq (dirs ?ex0) (resultFiles ?ex0)"
  let ?ex1 = "?ex0\<lparr>dirs := eo_dirs ?out, resultFiles := eo_files ?out, broadcasts := broadcasts ?ex0 @ eo_sent ?out\<rparr>"
  have d: "distinct (map (\<lambda>p. q_sessionId (fst p)) (pending ex))"
    using o by (simp add: orderly_def)
  have sub: "set (map (\<lambda>p. q_sessionId (fst p)) (remove1 (rq, og) (pending ex)))
               \<subseteq> set (map (\<lambda>p. q_sessionId (fst p)) (pending ex))"
    using set_remove1_subset [of "(rq, og)" "pending ex"] by auto
  have subA: "set (map (\<lambda>p. q_sessionId (fst p)) (pending ex)) \<subseteq> set (map fst (activeExecutions ex))"
    using o by (simp add: orderly_def)
  have sub2: "set (map (\<lambda>p. q_sessionId (fst p)) (remove1 (rq, og) (pending ex)))
               \<subseteq> set (map fst (activeExecutions ex))"
    using sub subA by (rule order_trans)
  have o0: "orderly ?ex0"
    using o sub2 distinct_map_remove1 [OF d, of "(rq, og)"] by (simp add: orderly_def)
  have o1: "orderly ?ex1"
    using o0 orderly_cong [of ?ex1 ?ex0] by simp
  have "q_sessionId rq \<in> set (map (\<lambda>p. q_sessionId (fst p)) (pending ex))"
    using p by force
  then have k: "q_sessionId rq \<in> set (map fst (activeExecutions ?ex1))"
    using subA by auto
  have nk: "q_sessionId rq \<notin> set (map (\<lambda>p. q_sessionId (fst p)) (pending ?ex1))"
    using remove1_image_fresh [OF d p] by simp
  have o2: "orderly (release (q_sessionId rq) ?ex1)"
    using release_orderly [OF o1 k nk] .
  have o3: "\<And>x. orderly (release (q_sessionId rq) ?ex1\<lparr>replies := x\<rparr>)"
    using o2 orderly_cong [of "release (q_sessionId rq) ?ex1\<lparr>replies := x\<rparr>" "release (q_sessionId rq) ?ex1" for x]
    by simp
  show ?thesis
    using o1 o2 o3
    by (cases "eo_promise ?out"; cases og) (simp_all add: executeTestNowEnd_def Let_def)
qed

lemma run_orderly:
  "uniqueSessions ex acts \<Longrightarrow> orderly ex \<Longrightarrow> orderly (run ex acts)"
proof (induction acts arbitrary: ex)
  case Nil
  then show ?case by (simp add: run_def)
next
  case (Cons a acts)
  have "orderly (step ex a)"
  proof (cases a)
    case (Submit rq)
    then show ?thesis using Cons.prems executeTest_orderly [of ex rq] by simp
  next
    case (Settle rq og w)
    then show ?thesis using Cons.prems settle_orderly [of ex rq og w] by simp
  qed
  moreover have "uniqueSessions (step ex a) acts"
    using Cons.prems by (cases a) simp_all
  ultimately have "orderly (run (step ex a) acts)" using Cons.IH by simp
  then show ?case by (simp add: run_def)
qed

lemma new_orderly: "orderly (newExecutor cfg n)"
  by (simp add: orderly_def newExecutor_def)

text \<open>
  With unique sessionIds, nothing is admitted past a waiting request: in every reachable
  state whose queue is not empty the map is full, so a new submission starts no
  execution and is appended behind the waiting requests. (With a sessionId reused while
  its entry is active, \<open>Map.set\<close> and \<open>Map.delete\<close> do not change the size by one, and
  the map can have room while requests wait.)
\<close>

lemma no_overtaking_with_unique_sessions:
  assumes "uniqueSessions (newExecutor cfg n) acts" and "ex = run (newExecutor cfg n) acts"
    and "executionQueue ex \<noteq> []"
  shows "executionQueue (step ex (Submit rq)) = executionQueue ex @ [rq]
    \<and> started (step ex (Submit rq)) = started ex"
proof -
  have "orderly ex" using assms(1,2) run_orderly [OF _ new_orderly] by simp
  then have "length (activeExecutions ex) = maxConcurrent ex"
    using assms(3) by (auto simp add: orderly_def)
  then show ?thesis by (simp add: executeTest_def)
qed

text \<open>
  A reused sessionId: with capacity 2, \<open>a\<close> and \<open>b\<close> run, a second request with sessionId
  \<open>b\<close> and then \<open>c\<close> wait. When \<open>a\<close> ends, the second \<open>b\<close> is promoted onto the entry of
  the first, the map holds one entry, and a later submission \<open>d\<close> is admitted while \<open>c\<close>
  still waits.
\<close>

lemma reused_session_admits_past_the_queue:
  "executionQueue (run (newExecutor configStorage 2)
      [Submit requestA, Submit requestB, Submit requestB2, Submit requestC,
       Settle requestA Awaited worldAllGood, Submit requestD]) = [requestC]
   \<and> map fst (started (run (newExecutor configStorage 2)
      [Submit requestA, Submit requestB, Submit requestB2, Submit requestC,
       Settle requestA Awaited worldAllGood, Submit requestD]))
       = [requestA, requestB, requestB2, requestD]"
  by (simp add: run_def newExecutor_def executeTest_def executeTestNowBegin_def executeTestNowEnd_def
      executeTestNowRun_def createExecutionEnvironment_def runTest_installed installDependencies_def
      settle_def release_def processQueue_def Let_def)

subsection \<open>executeTestNow: the workspace after an execution\<close>

lemma executeTestNowRun_keeps_workspace:
  assumes "w_ensureDir w = None"
  shows "executionDirOf cfg (q_sessionId rq) \<in> set (eo_dirs (executeTestNowRun cfg w rq ds files))"
proof -
  let ?ran = "runTest (w_global w) (w_npm w) (w_runner w) (w_start w) (w_fin w)
                (q_testData rq) (q_sessionId rq) (executionDirOf cfg (q_sessionId rq))"
  have "\<And>r. ro_promise ?ran \<noteq> Some (Inr r)"
    by (rule runTest_never_resolves)
  then show ?thesis
    using assms
    by (cases "w_writeFiles w"; cases "ro_promise ?ran")
       (auto simp add: executeTestNowRun_def createExecutionEnvironment_def Let_def split: sum.splits)
qed

lemma release_dirs: "dirs (release sid ex) = dirs ex"
  by (simp add: release_def processQueue_def executeTestNowBegin_def split: list.splits)

lemma executeTestNowEnd_dirs:
  "dirs (executeTestNowEnd rq og w ex) = eo_dirs (executeTestNowRun (storageCfg ex) w rq (dirs ex) (resultFiles ex))"
  by (simp add: executeTestNowEnd_def Let_def release_dirs split: option.splits origin.splits)

text \<open>
  C5 (the code departs from the claim). Whenever the workspace directory was created
  (\<open>fs.ensureDir\<close> did not throw), it still exists when the execution has run to its end,
  in every world: \<open>cleanup\<close> is called on the success path only, after \<open>runTest\<close> and
  \<open>processResults\<close>, the \<open>catch\<close> block of \<open>executeTestNow\<close> does not call it, and
  \<open>runTest\<close> never resolves.
\<close>

theorem workspace_persists_after_execution:
  assumes "w_ensureDir w = None"
  shows "executionDirOf (storageCfg ex) (q_sessionId rq) \<in> set (dirs (executeTestNowEnd rq og w ex))"
  using assms by (simp add: executeTestNowEnd_dirs executeTestNowRun_keeps_workspace)

text \<open>
  One execution, whose dependency installation exits with code 1: the call settles (it is
  rejected), and the workspace directory of session \<open>a\<close> is still there.
\<close>

theorem workspace_persists_after_execution_witness:
  "w_ensureDir worldInstallFails = None
   \<and> pending (run (newExecutor configStorage 1) [Submit requestA, Settle requestA Awaited worldInstallFails]) = []
   \<and> replies (run (newExecutor configStorage 1) [Submit requestA, Settle requestA Awaited worldInstallFails])
       = [(requestA, Rejected (DependencyInstallFailed (Some 1)))]
   \<and> dirs (run (newExecutor configStorage 1) [Submit requestA, Settle requestA Awaited worldInstallFails])
       = [''./data/tests/execution-a'']"
  using workspace_persists_after_execution
    [of worldInstallFails "run (newExecutor configStorage 1) [Submit requestA]" requestA Awaited]
  by (simp add: run_def newExecutor_def executeTest_def executeTestNowBegin_def executeTestNowEnd_def
      executeTestNowRun_def createExecutionEnvironment_def runTest_installed runTest_install_rejected
      installDependencies_def settle_def release_def processQueue_def Let_def
      configStorage_def executionDirOf_def joinPath_def)

subsection \<open>processQueue: the outcome of a promoted execution\<close>

lemma floating_no_reply: "replies (executeTestNowEnd rq Floating w ex) = replies ex"
  by (simp add: executeTestNowEnd_def Let_def release_def processQueue_replies split: option.splits)

text \<open>
  C2 (the code departs from the claim). With capacity 1, request \<open>a\<close> is admitted and
  request \<open>b\<close> is queued; the execution of \<open>a\<close> ends and promotes \<open>b\<close>; the execution of
  \<open>b\<close> ends. Both calls of \<open>executeTestNow\<close> have settled, and the callers have received
  two replies: the \<open>queued\<close> acknowledgement for \<open>b\<close> and the rejection for \<open>a\<close>. The
  outcome of the execution of \<open>b\<close> reached no caller.
\<close>

theorem promoted_outcome_reaches_no_caller:
  "pending (run (newExecutor configStorage 1)
      [Submit requestA, Submit requestB, Settle requestA Awaited worldAllGood,
       Settle requestB Floating worldAllGood]) = []
   \<and> started (run (newExecutor configStorage 1)
      [Submit requestA, Submit requestB, Settle requestA Awaited worldAllGood,
       Settle requestB Floating worldAllGood])
       = [(requestA, Awaited), (requestB, Floating)]
   \<and> replies (run (newExecutor configStorage 1)
      [Submit requestA, Submit requestB, Settle requestA Awaited worldAllGood,
       Settle requestB Floating worldAllGood])
       = [(requestB, Queued),
          (requestA, Rejected (ReferenceError ''Cannot access process before initialization''))]"
  by (simp add: run_def newExecutor_def executeTest_def executeTestNowBegin_def executeTestNowEnd_def
      executeTestNowRun_def createExecutionEnvironment_def runTest_installed runTest_install_rejected
      installDependencies_def settle_def release_def processQueue_def Let_def)

subsection \<open>executeTestNow: a failed installation\<close>

lemma fold_installHandler_no_error_event:
  assumes "\<And>x. TestExecutionError s x \<notin> set (sent h)"
  shows "TestExecutionError s x \<notin> set (sent (fold (installHandler sid) npm h))"
  using assms
proof (induction npm arbitrary: h)
  case Nil
  then show ?case by simp
next
  case (Cons ev npm)
  have "\<And>x. TestExecutionError s x \<notin> set (sent (installHandler sid ev h))"
    using Cons.prems by (cases ev) auto
  then show ?case using Cons.IH by simp
qed

lemma installDependencies_no_error_event:
  "TestExecutionError s x \<notin> set (sent (installDependencies sid npm))"
  unfolding installDependencies_def
  by (rule fold_installHandler_no_error_event) simp

lemma executeTestNowRun_install_rejected:
  assumes "w_ensureDir w = None" and "w_writeFiles w = None"
    and "promise (installDependencies (q_sessionId rq) (w_npm w)) = Some (Inl e)"
  shows "executeTestNowRun cfg w rq ds files =
     \<lparr>eo_dirs = List.insert (executionDirOf cfg (q_sessionId rq)) ds, eo_files = files,
      eo_sent = sent (installDependencies (q_sessionId rq) (w_npm w)), eo_promise = Some (Inl e)\<rparr>"
  using assms
  by (simp add: executeTestNowRun_def createExecutionEnvironment_def Let_def runTest_install_rejected)

lemma release_scheduler_fields:
  assumes "activeExecutions ex' = activeExecutions ex" and "executionQueue ex' = executionQueue ex"
    and "maxConcurrent ex' = maxConcurrent ex"
  shows "activeExecutions (release sid ex') = activeExecutions (release sid ex)"
    and "executionQueue (release sid ex') = executionQueue (release sid ex)"
  using assms
  by (simp_all add: release_def processQueue_def executeTestNowBegin_def split: list.splits)

lemma release_replies: "replies (release sid ex) = replies ex"
  by (simp add: release_def processQueue_def executeTestNowBegin_def split: list.splits)

lemma release_slot:
  "map_of (activeExecutions (release sid ex)) sid = None
   \<or> (\<exists>h rest. executionQueue ex = h # rest \<and> q_sessionId h = sid)"
  by (cases "executionQueue ex")
     (auto simp add: release_def processQueue_def executeTestNowBegin_def update_conv' delete_conv')

text \<open>
  The part of the error path that does hold: when the workspace was built and
  \<open>installDependencies\<close> rejects with \<open>e\<close>, the execution is rejected with \<open>e\<close> and yields
  no result, an awaited call passes the rejection to the caller of \<open>executeTest\<close>, and the
  map and the queue are those left by deleting the entry of the sessionId and running
  \<open>processQueue\<close>.
\<close>

lemma failed_installation_releases_slot:
  assumes "w_ensureDir w = None" and "w_writeFiles w = None"
    and "promise (installDependencies (q_sessionId rq) (w_npm w)) = Some (Inl e)"
  shows "eo_promise (executeTestNowRun (storageCfg ex) w rq (dirs ex) (resultFiles ex)) = Some (Inl e)
    \<and> replies (executeTestNowEnd rq Awaited w ex) = replies ex @ [(rq, Rejected e)]
    \<and> TestExecutionError s x \<notin> set (eo_sent (executeTestNowRun (storageCfg ex) w rq (dirs ex) (resultFiles ex)))
    \<and> activeExecutions (executeTestNowEnd rq og w ex) = activeExecutions (release (q_sessionId rq) ex)
    \<and> executionQueue (executeTestNowEnd rq og w ex) = executionQueue (release (q_sessionId rq) ex)
    \<and> (map_of (activeExecutions (executeTestNowEnd rq og w ex)) (q_sessionId rq) = None
        \<or> (\<exists>h rest. executionQueue ex = h # rest \<and> q_sessionId h = q_sessionId rq))"
proof -
  let ?out = "executeTestNowRun (storageCfg ex) w rq (dirs ex) (resultFiles ex)"
  let ?ex1 = "ex\<lparr>dirs := eo_dirs ?out, resultFiles := eo_files ?out, broadcasts := broadcasts ex @ eo_sent ?out\<rparr>"
  have out: "eo_promise ?out = Some (Inl e)"
    using assms by (simp add: executeTestNowRun_install_rejected)
  have rel: "activeExecutions (release (q_sessionId rq) ?ex1) = activeExecutions (release (q_sessionId rq) ex)"
    "executionQueue (release (q_sessionId rq) ?ex1) = executionQueue (release (q_sessionId rq) ex)"
    by (rule release_scheduler_fields; simp)+
  have rep: "replies (release (q_sessionId rq) ?ex1) = replies ex"
    by (simp add: release_replies)
  have fin: "activeExecutions (executeTestNowEnd rq og w ex) = activeExecutions (release (q_sessionId rq) ex)"
    "executionQueue (executeTestNowEnd rq og w ex) = executionQueue (release (q_sessionId rq) ex)"
    using out rel by (cases og; simp add: executeTestNowEnd_def Let_def)+
  have aw: "replies (executeTestNowEnd rq Awaited w ex) = replies ex @ [(rq, Rejected e)]"
    using out rep by (simp add: executeTestNowEnd_def Let_def)
  have ev: "TestExecutionError s x \<notin> set (eo_sent ?out)"
    using assms by (simp add: executeTestNowRun_install_rejected installDependencies_no_error_event)
  show ?thesis
    using out fin aw ev release_slot [of "q_sessionId rq" ex] by simp
qed

text \<open>
  C6 (the code departs from the claim). One awaited execution whose installation exits
  with code 1, and one for which \<open>npm\<close> cannot be spawned: in each the caller gets the
  rejection and the entry of the sessionId is gone, but the messages the executor
  broadcast are the two listed, none of them an error event. The \<open>error\<close> handler of the
  test-runner process, run on a spawn error, does broadcast \<open>test-execution-error\<close> before
  it rejects; the handlers of \<open>installDependencies\<close> only reject.
\<close>

theorem install_failure_broadcasts_no_error_event:
  "promise (installDependencies ''a'' (w_npm worldInstallFails)) = Some (Inl (DependencyInstallFailed (Some 1)))
   \<and> replies (run (newExecutor configStorage 1) [Submit requestA, Settle requestA Awaited worldInstallFails])
       = [(requestA, Rejected (DependencyInstallFailed (Some 1)))]
   \<and> broadcasts (run (newExecutor configStorage 1) [Submit requestA, Settle requestA Awaited worldInstallFails])
       = [ExecutionStarted ''a'' ''t1'', DependencyInstallationStarted ''a'']
   \<and> filter isErrorEvent
        (broadcasts (run (newExecutor configStorage 1) [Submit requestA, Settle requestA Awaited worldInstallFails]))
       = []
   \<and> activeExecutions (run (newExecutor configStorage 1) [Submit requestA, Settle requestA Awaited worldInstallFails])
       = []
   \<and> promise (installDependencies ''a'' (w_npm worldNpmMissing)) = Some (Inl (SystemError ''spawn npm ENOENT''))
   \<and> replies (run (newExecutor configStorage 1) [Submit requestA, Settle requestA Awaited worldNpmMissing])
       = [(requestA, Rejected (SystemError ''spawn npm ENOENT''))]
   \<and> broadcasts (run (newExecutor configStorage 1) [Submit requestA, Settle requestA Awaited worldNpmMissing])
       = [ExecutionStarted ''a'' ''t1'', DependencyInstallationStarted ''a'']
   \<and> activeExecutions (run (newExecutor configStorage 1) [Submit requestA, Settle requestA Awaited worldNpmMissing])
       = []
   \<and> sent (runnerHandler \<lparr>td_id = ''t1'', td_code = []\<rparr> ''a'' 0 9 (ErrorEv (SystemError ''spawn npx ENOENT''))
        \<lparr>sent = [], promise = None, outputAcc = [], errorOutputAcc = []\<rparr>)
       = [TestExecutionError ''a'' (SystemError ''spawn npx ENOENT'')]
   \<and> promise (runnerHandler \<lparr>td_id = ''t1'', td_code = []\<rparr> ''a'' 0 9 (ErrorEv (SystemError ''spawn npx ENOENT''))
        \<lparr>sent = [], promise = None, outputAcc = [], errorOutputAcc = []\<rparr>)
       = Some (Inl (SystemError ''spawn npx ENOENT''))"
  by (simp add: run_def newExecutor_def executeTest_def executeTestNowBegin_def executeTestNowEnd_def
      executeTestNowRun_def createExecutionEnvironment_def runTest_installed runTest_install_rejected
      installDependencies_def settle_def release_def processQueue_def Let_def)

subsection \<open>StreamingService: one connection does not affect another\<close>

lemma removeConnection_lookup:
  "map_of (connections (removeConnection cid st)) k = (if k = cid then None else map_of (connections st) k)"
  by (auto simp add: removeConnection_def delete_conv' split: option.splits)

lemma sendTo_lookup:
  "map_of (connections (sendTo msg cid st)) k =
     (if k = cid then attempt msg (map_of (connections st) cid) else map_of (connections st) k)"
  by (auto simp add: sendTo_def attempt_def removeConnection_lookup update_conv' split: option.splits)

lemma fold_sendTo_lookup:
  assumes "distinct ks"
  shows "map_of (connections (fold (sendTo msg) ks st)) k =
     (if k \<in> set ks then attempt msg (map_of (connections st) k) else map_of (connections st) k)"
  using assms
proof (induction ks arbitrary: st)
  case Nil
  then show ?case by simp
next
  case (Cons c ks)
  then show ?case by (auto simp add: sendTo_lookup)
qed

lemma attempt_None: "attempt msg None = None"
  by (simp add: attempt_def)

lemma broadcast_lookup:
  assumes "distinct (map fst (connections st))"
  shows "map_of (connections (broadcast now m st)) k = attempt (stamp now None m) (map_of (connections st) k)"
proof (cases "k \<in> set (map fst (connections st))")
  case True
  then show ?thesis using assms by (simp add: broadcast_def fold_sendTo_lookup)
next
  case False
  then have "map_of (connections st) k = None" by (simp add: map_of_eq_None_iff)
  then show ?thesis using assms False by (simp add: broadcast_def fold_sendTo_lookup attempt_None)
qed

lemma sendToChannel_lookup:
  assumes "map_of (subscriptions st) channel = Some subscribers" and "distinct subscribers"
  shows "map_of (connections (sendToChannel now channel m st)) k =
     (if k \<in> set subscribers then attempt (stamp now (Some channel) m) (map_of (connections st) k)
      else map_of (connections st) k)"
  using assms by (simp add: sendToChannel_def fold_sendTo_lookup)

text \<open>
  C10 (as amended). In a registry (a \<open>Map\<close>: its ids are distinct), for a connection \<open>c\<close>
  registered under \<open>k\<close>, after \<open>broadcast\<close>: if \<open>c\<close> is live (connected, socket open,
  \<open>send\<close> does not throw) its socket has been sent the stamped message, once, whatever the
  other connections are; if its \<open>send\<close> throws, it has been sent nothing and its entry
  is pruned; if its socket is not open, it has been sent nothing and its entry stays. The
  same holds after \<open>sendToChannel\<close> for the subscribers of the channel (a \<open>Set\<close>), and
  connections that are not subscribers are left as they are.
\<close>

theorem send_affects_only_the_failing_connection:
  assumes "distinct (map fst (connections st))" and "map_of (connections st) k = Some c"
  shows "(connected c \<and> readyState c = 1 \<and> \<not> sendThrows c \<longrightarrow>
            map_of (connections (broadcast now m st)) k = Some (c\<lparr>outbox := outbox c @ [stamp now None m]\<rparr>))
    \<and> (connected c \<and> readyState c = 1 \<and> sendThrows c \<longrightarrow>
            map_of (connections (broadcast now m st)) k = None)
    \<and> (\<not> (connected c \<and> readyState c = 1) \<longrightarrow>
            map_of (connections (broadcast now m st)) k = Some c)
    \<and> (map_of (subscriptions st) channel = Some subscribers \<and> distinct subscribers \<longrightarrow>
          (k \<in> set subscribers \<and> connected c \<and> readyState c = 1 \<and> \<not> sendThrows c \<longrightarrow>
              map_of (connections (sendToChannel now channel m st)) k
                = Some (c\<lparr>outbox := outbox c @ [stamp now (Some channel) m]\<rparr>))
          \<and> (k \<in> set subscribers \<and> connected c \<and> readyState c = 1 \<and> sendThrows c \<longrightarrow>
              map_of (connections (sendToChannel now channel m st)) k = None)
          \<and> (k \<notin> set subscribers \<or> \<not> (connected c \<and> readyState c = 1) \<longrightarrow>
              map_of (connections (sendToChannel now channel m st)) k = Some c))"
  using assms broadcast_lookup [of st now m k] sendToChannel_lookup [of st channel subscribers now m k]
  by (auto simp add: attempt_def)

text \<open>
  The sample service: after a broadcast and after a send to channel \<open>x\<close>, the closed
  connection \<open>c1\<close> is registered as before, \<open>c2\<close> is pruned, and \<open>c3\<close> has the message.
\<close>

theorem send_affects_only_the_failing_connection_witness:
  "distinct (map fst (connections sampleService))
   \<and> map_of (subscriptions sampleService) ''x'' = Some [''c2'', ''c3'']
   \<and> map_of (connections (broadcast ''T'' \<lparr>m_body = ''hello'', m_timestamp = None\<rparr> sampleService)) ''c1''
       = Some \<lparr>readyState = 3, sendThrows = False, outbox = [], connected = True, c_subscriptions = []\<rparr>
   \<and> map_of (connections (broadcast ''T'' \<lparr>m_body = ''hello'', m_timestamp = None\<rparr> sampleService)) ''c2'' = None
   \<and> map_of (connections (broadcast ''T'' \<lparr>m_body = ''hello'', m_timestamp = None\<rparr> sampleService)) ''c3''
       = Some \<lparr>readyState = 1, sendThrows = False,
               outbox = [\<lparr>wr_body = ''hello'', wr_channel = None, wr_timestamp = ''T''\<rparr>],
               connected = True, c_subscriptions = [''x'']\<rparr>
   \<and> map_of (connections (sendToChannel ''T'' ''x'' \<lparr>m_body = ''hello'', m_timestamp = None\<rparr> sampleService)) ''c1''
       = Some \<lparr>readyState = 3, sendThrows = False, outbox = [], connected = True, c_subscriptions = []\<rparr>
   \<and> map_of (connections (sendToChannel ''T'' ''x'' \<lparr>m_body = ''hello'', m_timestamp = None\<rparr> sampleService)) ''c2'' = None
   \<and> map_of (connections (sendToChannel ''T'' ''x'' \<lparr>m_body = ''hello'', m_timestamp = None\<rparr> sampleService)) ''c3''
       = Some \<lparr>readyState = 1, sendThrows = False,
               outbox = [\<lparr>wr_body = ''hello'', wr_channel = Some ''x'', wr_timestamp = ''T''\<rparr>],
               connected = True, c_subscriptions = [''x'']\<rparr>"
  using send_affects_only_the_failing_connection
      [of sampleService "''c1''"
          "\<lparr>readyState = 3, sendThrows = False, outbox = [], connected = True, c_subscriptions = []\<rparr>"
          "''T''" "\<lparr>m_body = ''hello'', m_timestamp = None\<rparr>" "''x''" "[''c2'', ''c3'']"]
    send_affects_only_the_failing_connection
      [of sampleService "''c2''"
          "\<lparr>readyState = 1, sendThrows = True, outbox = [], connected = True, c_subscriptions = [''x'']\<rparr>"
          "''T''" "\<lparr>m_body = ''hello'', m_timestamp = None\<rparr>" "''x''" "[''c2'', ''c3'']"]
    send_affects_only_the_failing_connection
      [of sampleService "''c3''"
          "\<lparr>readyState = 1, sendThrows = False, outbox = [], connected = True, c_subscriptions = [''x'']\<rparr>"
          "''T''" "\<lparr>m_body = ''hello'', m_timestamp = None\<rparr>" "''x''" "[''c2'', ''c3'']"]
  by (simp add: stamp_def)

text \<open>
  The claim as stated has every dead connection pruned by the send. The connection \<open>c1\<close>
  of the sample service is gone (its socket is closed); after a broadcast it has been
  sent nothing and is still in the registry.
\<close>

theorem gone_connection_not_pruned_counterexample:
  "map_of (connections sampleService) ''c1''
       = Some \<lparr>readyState = 3, sendThrows = False, outbox = [], connected = True, c_subscriptions = []\<rparr>
   \<and> map_of (connections (broadcast ''T'' \<lparr>m_body = ''hello'', m_timestamp = None\<rparr> sampleService)) ''c1''
       = Some \<lparr>readyState = 3, sendThrows = False, outbox = [], connected = True, c_subscriptions = []\<rparr>
   \<and> map fst (connections (broadcast ''T'' \<lparr>m_body = ''hello'', m_timestamp = None\<rparr> sampleService))
       = [''c1'', ''c3'']"
  by (simp add: broadcast_def sendTo_def removeConnection_def stamp_def AList.delete_eq)

end
